theory Spec2Isabelle
  imports Complex_Main
begin

section \<open>JavaScript numbers\<close>

text \<open>
  A JavaScript number is an IEEE 754 double. In the frame callbacks a finite number is
  modelled as an exact real (rounding, overflow, underflow and the sign of zero are not
  modelled); the three special values are kept, with the IEEE rules for them, because
  the callbacks receive \<open>delta\<close> unchecked.
\<close>

datatype jsnum = Num real | PosInf | NegInf | NaN

fun jneg :: "jsnum \<Rightarrow> jsnum" where
  "jneg (Num a) = Num (- a)"
| "jneg PosInf = NegInf"
| "jneg NegInf = PosInf"
| "jneg NaN = NaN"

fun jadd :: "jsnum \<Rightarrow> jsnum \<Rightarrow> jsnum" where
  "jadd (Num a) (Num b) = Num (a + b)"
| "jadd NaN b = NaN"
| "jadd a NaN = NaN"
| "jadd PosInf NegInf = NaN"
| "jadd NegInf PosInf = NaN"
| "jadd PosInf b = PosInf"
| "jadd a PosInf = PosInf"
| "jadd NegInf b = NegInf"
| "jadd a NegInf = NegInf"

definition jsub :: "jsnum \<Rightarrow> jsnum \<Rightarrow> jsnum" where
  "jsub a b = jadd a (jneg b)"

fun jmul :: "jsnum \<Rightarrow> jsnum \<Rightarrow> jsnum" where
  "jmul (Num a) (Num b) = Num (a * b)"
| "jmul NaN b = NaN"
| "jmul a NaN = NaN"
| "jmul (Num a) PosInf = (if a = 0 then NaN else if 0 < a then PosInf else NegInf)"
| "jmul (Num a) NegInf = (if a = 0 then NaN else if 0 < a then NegInf else PosInf)"
| "jmul PosInf (Num b) = (if b = 0 then NaN else if 0 < b then PosInf else NegInf)"
| "jmul NegInf (Num b) = (if b = 0 then NaN else if 0 < b then NegInf else PosInf)"
| "jmul PosInf PosInf = PosInf"
| "jmul PosInf NegInf = NegInf"
| "jmul NegInf PosInf = NegInf"
| "jmul NegInf NegInf = PosInf"

text \<open>\<open>Math.exp\<close>.\<close>

fun jexp :: "jsnum \<Rightarrow> jsnum" where
  "jexp (Num a) = Num (exp a)"
| "jexp PosInf = PosInf"
| "jexp NegInf = Num 0"
| "jexp NaN = NaN"

fun isFinite :: "jsnum \<Rightarrow> bool" where
  "isFinite (Num a) = True"
| "isFinite PosInf = False"
| "isFinite NegInf = False"
| "isFinite NaN = False"

text \<open>A finite number in the closed unit interval.\<close>

fun in_unit :: "jsnum \<Rightarrow> bool" where
  "in_unit (Num a) = (0 \<le> a \<and> a \<le> 1)"
| "in_unit PosInf = False"
| "in_unit NegInf = False"
| "in_unit NaN = False"

text \<open>A finite, non-negative number: what the frame loop passes as \<open>delta\<close>.\<close>

fun nonneg :: "jsnum \<Rightarrow> bool" where
  "nonneg (Num a) = (0 \<le> a)"
| "nonneg PosInf = False"
| "nonneg NegInf = False"
| "nonneg NaN = False"


section \<open>Double-precision arithmetic\<close>

text \<open>
  The pixel loop of \<open>imageToPoints\<close> compares luminances with thresholds, and pixels
  whose colour sits on a threshold are decided by the rounding of the doubles. Its
  arithmetic is therefore modelled with the rounding written out: \<open>fl x\<close> is the
  double nearest to the real \<open>x\<close>, ties going to the even mantissa, for \<open>x\<close> in the
  normal range of the doubles (every value of the pixel loop is 0 or a difference of
  luminances, which is far inside that range). A product, sum or difference of two doubles
  is the exact result rounded, and a decimal literal is the nearest double.
\<close>

definition round_even :: "real \<Rightarrow> int" where
  "round_even r =
     (let f = \<lfloor>r\<rfloor>
      in if r - of_int f < 1 / 2 then f
         else if 1 / 2 < r - of_int f then f + 1
         else if even f then f else f + 1)"

definition fl :: "real \<Rightarrow> real" where
  "fl x =
     (if x = 0 then 0
      else
        let e = \<lfloor>log 2 \<bar>x\<bar>\<rfloor> - 52
        in of_int (round_even (x / 2 powr of_int e)) * 2 powr of_int e)"

definition dmul :: "real \<Rightarrow> real \<Rightarrow> real" where
  "dmul a b = fl (a * b)"

definition dadd :: "real \<Rightarrow> real \<Rightarrow> real" where
  "dadd a b = fl (a + b)"

definition dsub :: "real \<Rightarrow> real \<Rightarrow> real" where
  "dsub a b = fl (a - b)"


section \<open>THREE.MathUtils\<close>

text \<open>
  Modelled from the spec: \<open>THREE.MathUtils.damp\<close> belongs to the three.js library,
  which the components import and which is not among the source files. The spec gives
  the update rule \<open>value \<leftarrow> target + (value - target) * exp(-rate * deltaTime)\<close>.
  The definitions below follow the form in which the library computes that rule,
  \<open>lerp(x, y, t) = (1 - t) * x + t * y\<close> and
  \<open>damp(x, y, lambda, dt) = lerp(x, y, 1 - Math.exp(-lambda * dt))\<close>,
  so that the agreement of the two is a theorem and not a definition.
\<close>

definition lerp :: "jsnum \<Rightarrow> jsnum \<Rightarrow> jsnum \<Rightarrow> jsnum" where
  "lerp x y t = jadd (jmul (jsub (Num 1) t) x) (jmul t y)"

definition damp :: "jsnum \<Rightarrow> jsnum \<Rightarrow> jsnum \<Rightarrow> jsnum \<Rightarrow> jsnum" where
  "damp x y lambda dt = lerp x y (jsub (Num 1) (jexp (jmul (jneg lambda) dt)))"

text \<open>The update rule in the words of the spec, on real numbers.\<close>

definition spec_update :: "real \<Rightarrow> real \<Rightarrow> real \<Rightarrow> real \<Rightarrow> real" where
  "spec_update v target rate deltaTime = target + (v - target) * exp (- rate * deltaTime)"


section \<open>Modes and per-frame inputs\<close>

text \<open>\<open>types.ts\<close>: \<open>type InteractionMode = 'SCATTERED' | 'TREE' | 'IMAGE'\<close>.\<close>

datatype InteractionMode = SCATTERED | TREE | IMAGE

text \<open>
  What one call of a \<open>useFrame\<close> callback sees: the \<open>mode\<close> prop, the \<open>delta\<close>
  argument, and whether the component's object ref (\<open>meshRef.current\<close>,
  \<open>groupRef.current\<close>) is set.
\<close>

record frame_input =
  fi_mode :: InteractionMode
  fi_delta :: jsnum
  fi_mounted :: bool


section \<open>FoliageLayer\<close>

record FoliageRefs =
  progressRef :: jsnum
  imageMixRef :: jsnum

definition FoliageLayer_init :: "InteractionMode \<Rightarrow> FoliageRefs" where
  "FoliageLayer_init mode =
     \<lparr>progressRef = (if mode = TREE then Num 1 else Num 0),
      imageMixRef = (if mode = IMAGE then Num 1 else Num 0)\<rparr>"

definition FoliageLayer_useFrame :: "frame_input \<Rightarrow> FoliageRefs \<Rightarrow> FoliageRefs" where
  "FoliageLayer_useFrame f r =
     (let targetProgress = (if fi_mode f = SCATTERED then Num 0 else Num 1);
          p = damp (progressRef r) targetProgress (Num 2.0) (fi_delta f);
          targetImageMix = (if fi_mode f = IMAGE then Num 1 else Num 0);
          m = damp (imageMixRef r) targetImageMix (Num 1.5) (fi_delta f)
      in \<lparr>progressRef = p, imageMixRef = m\<rparr>)"


section \<open>MorphingInstancedMesh, GiftBox\<close>

record MorphRefs =
  progress :: jsnum
  visibilityScale :: jsnum

definition MorphingInstancedMesh_init :: "InteractionMode \<Rightarrow> MorphRefs" where
  "MorphingInstancedMesh_init mode =
     \<lparr>progress = (if mode = TREE then Num 1 else Num 0), visibilityScale = Num 1\<rparr>"

definition MorphingInstancedMesh_useFrame :: "frame_input \<Rightarrow> MorphRefs \<Rightarrow> MorphRefs" where
  "MorphingInstancedMesh_useFrame f r =
     (if \<not> fi_mounted f then r
      else
        let target = (if fi_mode f = TREE then Num 1 else Num 0);
            p = damp (progress r) target (Num 2.5) (fi_delta f);
            targetVis = (if fi_mode f = IMAGE then Num 0 else Num 1);
            v = damp (visibilityScale r) targetVis (Num 3.0) (fi_delta f)
        in \<lparr>progress = p, visibilityScale = v\<rparr>)"

record GiftRefs =
  gift_progress :: jsnum
  visScale :: jsnum

definition GiftBox_init :: "InteractionMode \<Rightarrow> GiftRefs" where
  "GiftBox_init mode =
     \<lparr>gift_progress = (if mode = TREE then Num 1 else Num 0), visScale = Num 1\<rparr>"

definition GiftBox_useFrame :: "frame_input \<Rightarrow> GiftRefs \<Rightarrow> GiftRefs" where
  "GiftBox_useFrame f r =
     (if \<not> fi_mounted f then r
      else
        let target = (if fi_mode f = TREE then Num 1 else Num 0);
            p = damp (gift_progress r) target (Num 2) (fi_delta f);
            targetVis = (if fi_mode f = IMAGE then Num 0 else Num 1);
            v = damp (visScale r) targetVis (Num 3) (fi_delta f)
        in \<lparr>gift_progress = p, visScale = v\<rparr>)"


section \<open>GoldParticleLayer, SnowFloor, FallingSnow\<close>

text \<open>
  These three components keep one scalar, \<open>progressRef\<close>, and their callbacks are the
  same two lines. None of them has a visibility scalar.
\<close>

definition GoldParticleLayer_init :: "InteractionMode \<Rightarrow> jsnum" where
  "GoldParticleLayer_init mode = (if mode = TREE then Num 1 else Num 0)"

definition SnowFloor_init :: "InteractionMode \<Rightarrow> jsnum" where
  "SnowFloor_init mode = (if mode = TREE then Num 1 else Num 0)"

definition FallingSnow_init :: "InteractionMode \<Rightarrow> jsnum" where
  "FallingSnow_init mode = (if mode = TREE then Num 1 else Num 0)"

definition GoldParticleLayer_useFrame :: "frame_input \<Rightarrow> jsnum \<Rightarrow> jsnum" where
  "GoldParticleLayer_useFrame f progressRef_current =
     (let target = (if fi_mode f = TREE then Num 1 else Num 0)
      in damp progressRef_current target (Num 2.0) (fi_delta f))"

definition SnowFloor_useFrame :: "frame_input \<Rightarrow> jsnum \<Rightarrow> jsnum" where
  "SnowFloor_useFrame f progressRef_current =
     (let target = (if fi_mode f = TREE then Num 1 else Num 0)
      in damp progressRef_current target (Num 2.0) (fi_delta f))"

definition FallingSnow_useFrame :: "frame_input \<Rightarrow> jsnum \<Rightarrow> jsnum" where
  "FallingSnow_useFrame f progressRef_current =
     (let target = (if fi_mode f = TREE then Num 1 else Num 0)
      in damp progressRef_current target (Num 2.0) (fi_delta f))"

text \<open>
  The vertex shader of GoldParticleLayer sets
  \<open>gl_PointSize = (40.0 * aRandom + 40.0) * (20.0 / -mvPosition.z)\<close>: the size of a
  bead depends on no uniform, so on neither the mode nor a scalar of the layer.
\<close>

definition GoldParticleLayer_pointSize :: "real \<Rightarrow> real \<Rightarrow> real" where
  "GoldParticleLayer_pointSize aRandom mvPosition_z =
     (40.0 * aRandom + 40.0) * (20.0 / (- mvPosition_z))"


section \<open>The frame loop\<close>

text \<open>The renderer calls a component's callback once per frame, in order.\<close>

fun run_frames :: "(frame_input \<Rightarrow> 's \<Rightarrow> 's) \<Rightarrow> frame_input list \<Rightarrow> 's \<Rightarrow> 's" where
  "run_frames step [] s = s"
| "run_frames step (f # fs) s = run_frames step fs (step f s)"

text \<open>Frames with the mode held constant, the component mounted, and finite deltas.\<close>

definition hold :: "InteractionMode \<Rightarrow> real list \<Rightarrow> frame_input list" where
  "hold mode dts = map (\<lambda>d. \<lparr>fi_mode = mode, fi_delta = Num d, fi_mounted = True\<rparr>) dts"


section \<open>FoliageLayer: the image-configuration attribute\<close>

text \<open>
  The geometry's \<open>aImagePos\<close> attribute. The JSX mounts it on \<open>treePositions\<close>; the
  effect, which runs when \<open>imagePoints\<close> changes, sets it again. \<open>count\<close> is
  \<open>PARTICLE_COUNT\<close>, a constant of a file that is not among the sources, and is taken
  as a parameter. An absent buffer (\<open>null\<close>, \<open>undefined\<close>) is \<open>None\<close>; a
  \<open>Float32Array\<close> is truthy whatever its length.
\<close>

record FoliageGeometry =
  aImagePos :: "jsnum list"

definition FoliageLayer_mount :: "jsnum list \<Rightarrow> FoliageGeometry" where
  "FoliageLayer_mount treePositions = \<lparr>aImagePos = treePositions\<rparr>"

definition FoliageLayer_useEffect ::
  "nat \<Rightarrow> jsnum list \<Rightarrow> jsnum list option \<Rightarrow> FoliageGeometry option \<Rightarrow> FoliageGeometry option"
where
  "FoliageLayer_useEffect count treePositions imagePoints geometryRef_current =
     (case geometryRef_current of
        None \<Rightarrow> None
      | Some g \<Rightarrow>
          let dataToUse =
                (case imagePoints of
                   None \<Rightarrow> treePositions
                 | Some pts \<Rightarrow> if length pts = count * 3 then pts else treePositions)
          in Some (g\<lparr>aImagePos := dataToUse\<rparr>))"


section \<open>imageToPoints\<close>

text \<open>
  \<open>imgData.data\<close>, the RGBA bytes read back from the canvas, as a function from the
  byte index to the byte. Coordinates are integers, as the helpers test them for
  negative values. The luminance is computed in doubles, left to right as JavaScript
  evaluates \<open>0.299 * r + 0.587 * g + 0.114 * b\<close>, and so are the two differences of
  the edge test; \<open>Math.abs\<close> and the comparisons are exact.
\<close>

definition getLum :: "int \<Rightarrow> int \<Rightarrow> (nat \<Rightarrow> nat) \<Rightarrow> int \<Rightarrow> int \<Rightarrow> real" where
  "getLum width height data x y =
     (if x < 0 \<or> width \<le> x \<or> y < 0 \<or> height \<le> y then 255
      else
        let idx = nat ((y * width + x) * 4)
        in dadd (dadd (dmul (fl 0.299) (real (data idx)))
                      (dmul (fl 0.587) (real (data (idx + 1)))))
                (dmul (fl 0.114) (real (data (idx + 2)))))"

definition getAlpha :: "int \<Rightarrow> int \<Rightarrow> (nat \<Rightarrow> nat) \<Rightarrow> int \<Rightarrow> int \<Rightarrow> nat" where
  "getAlpha width height data x y =
     (if x < 0 \<or> width \<le> x \<or> y < 0 \<or> height \<le> y then 0
      else data (nat ((y * width + x) * 4 + 3)))"

text \<open>The body of the pixel loop: whether \<open>candidates.push(x, y)\<close> is reached.\<close>

definition isCandidate :: "int \<Rightarrow> int \<Rightarrow> (nat \<Rightarrow> nat) \<Rightarrow> int \<Rightarrow> int \<Rightarrow> bool" where
  "isCandidate width height data x y =
     (let lum = getLum width height data x y;
          alpha = getAlpha width height data x y
      in if alpha < 50 then False
         else
           let isDark = (lum < 180);
               rightLum = getLum width height data (x + 1) y;
               bottomLum = getLum width height data x (y + 1);
               isEdge = (15 < \<bar>dsub lum rightLum\<bar> \<or> 15 < \<bar>dsub lum bottomLum\<bar>)
           in isDark \<or> isEdge)"

text \<open>The two nested loops; \<open>candidates\<close> is the flat array \<open>x0, y0, x1, y1, ...\<close>.\<close>

definition scan_row :: "int \<Rightarrow> int \<Rightarrow> (nat \<Rightarrow> nat) \<Rightarrow> int \<Rightarrow> int list" where
  "scan_row width height data y =
     concat (map (\<lambda>x. if isCandidate width height data x y then [x, y] else [])
               [0 .. width - 1])"

definition scan :: "int \<Rightarrow> int \<Rightarrow> (nat \<Rightarrow> nat) \<Rightarrow> int list" where
  "scan width height data = concat (map (scan_row width height data) [0 .. height - 1])"

text \<open>
  One round of the output loop: the three entries written at \<open>i * 3\<close>. The \<open>k\<close>-th
  call of \<open>Math.random()\<close> returns \<open>random k\<close>; round \<open>i\<close> makes calls \<open>2 * i\<close> and
  \<open>2 * i + 1\<close>. An index outside \<open>candidates\<close> reads \<open>undefined\<close>, and arithmetic on
  it gives \<open>NaN\<close>. The coordinates are computed on exact numbers: their rounding to
  doubles, and to the 32-bit floats of the buffer, is not modelled.
\<close>

definition sample_point :: "int \<Rightarrow> int \<Rightarrow> int list \<Rightarrow> (nat \<Rightarrow> real) \<Rightarrow> nat \<Rightarrow> jsnum list" where
  "sample_point width height candidates random i =
     (let scale = 16;
          aspectRatio = real_of_int height / real_of_int width;
          index = \<lfloor>random (2 * i) * (real (length candidates) / 2)\<rfloor> * 2;
          z = Num ((random (2 * i + 1) - 0.5) * 0.1)
      in if 0 \<le> index \<and> index + 1 < int (length candidates) then
           let px = candidates ! nat index;
               py = candidates ! nat (index + 1);
               nx = (real_of_int px / real_of_int width) - 0.5;
               ny = (real_of_int py / real_of_int height) - 0.5
           in [Num (nx * scale), Num (- ny * scale * aspectRatio + 2.0), z]
         else [NaN, NaN, z])"

text \<open>
  What the browser makes of \<open>imageSource\<close>: \<open>onerror\<close>, or \<open>onload\<close> with the image's
  \<open>width\<close> and \<open>height\<close>. The other answers of the browser are whether
  \<open>canvas.getContext('2d')\<close> returns a context, the bytes \<open>imgData.data\<close> read back
  after \<open>drawImage\<close>, and the successive values of \<open>Math.random()\<close>.
\<close>

datatype decoded = DecodeError | Decoded nat nat

record browser =
  br_image :: decoded
  br_context2d :: bool
  br_data :: "nat \<Rightarrow> nat"
  br_random :: "nat \<Rightarrow> real"

text \<open>
  The promise either resolves with a buffer or stays pending: its executor never calls
  a reject function, and an exception thrown inside \<open>onload\<close> leaves it unsettled.
\<close>

datatype promise = Resolved "jsnum list" | Pending

text \<open>
  \<open>Math.floor(width * (img.height / img.width))\<close>, as stored in \<open>canvas.height\<close>,
  computed on exact numbers. With \<open>img.width = 0\<close> the quotient is infinite or
  \<open>NaN\<close>, which the canvas API takes as 0.
\<close>

definition canvas_height :: "nat \<Rightarrow> nat \<Rightarrow> int" where
  "canvas_height img_width img_height =
     (if img_width = 0 then 0 else \<lfloor>400 * (real img_height / real img_width)\<rfloor>)"

text \<open>
  \<open>ctx.getImageData(0, 0, width, height)\<close> throws an \<open>IndexSizeError\<close> when
  \<open>height\<close> is 0; nothing in \<open>onload\<close> catches it.
\<close>

definition imageToPoints :: "browser \<Rightarrow> nat \<Rightarrow> promise" where
  "imageToPoints b targetCount =
     (case br_image b of
        DecodeError \<Rightarrow> Resolved (replicate (targetCount * 3) (Num 0))
      | Decoded img_width img_height \<Rightarrow>
          let width = 400;
              height = canvas_height img_width img_height
          in if \<not> br_context2d b then Resolved (replicate (targetCount * 3) (Num 0))
             else if height = 0 then Pending
             else
               let candidates = scan width height (br_data b)
               in if length candidates = 0 then Resolved (replicate (targetCount * 3) (Num 0))
                  else Resolved (concat (map (sample_point width height candidates (br_random b))
                                           [0 ..< targetCount])))"


section \<open>App: installing the image point set\<close>

text \<open>\<open>points[i] !== 0\<close>; an index past the end reads \<open>undefined\<close>, which is not 0.\<close>

definition strict_ne_zero :: "jsnum list \<Rightarrow> nat \<Rightarrow> bool" where
  "strict_ne_zero points i = (if i < length points then points ! i \<noteq> Num 0 else True)"

function hasValidPoints_from :: "jsnum list \<Rightarrow> nat \<Rightarrow> bool" where
  "hasValidPoints_from points i =
     (if i < length points then
        (if strict_ne_zero points i \<or> strict_ne_zero points (i + 1)
            \<or> strict_ne_zero points (i + 2)
         then True
         else hasValidPoints_from points (i + 3))
      else False)"
  by pat_completeness auto
termination
  by (relation "measure (\<lambda>(points, i). length points - i)") auto

declare hasValidPoints_from.simps [simp del]

definition hasValidPoints :: "jsnum list \<Rightarrow> bool" where
  "hasValidPoints points = hasValidPoints_from points 0"

record AppState =
  imagePoints :: "jsnum list option"
  interactionMode :: InteractionMode

definition App_init :: AppState where
  "App_init = \<lparr>imagePoints = None, interactionMode = TREE\<rparr>"

text \<open>The \<open>then\<close> callback of the default-image effect.\<close>

definition default_image_resolved :: "jsnum list \<Rightarrow> AppState \<Rightarrow> AppState" where
  "default_image_resolved points st =
     (if hasValidPoints points then st\<lparr>imagePoints := Some points\<rparr> else st)"

text \<open>The \<open>then\<close> callback of \<open>handleImageUpload\<close>.\<close>

definition upload_resolved :: "jsnum list \<Rightarrow> AppState \<Rightarrow> AppState" where
  "upload_resolved points st =
     (if hasValidPoints points
      then st\<lparr>imagePoints := Some points, interactionMode := IMAGE\<rparr>
      else st)"

text \<open>
  \<open>setImagePoints\<close> is called at these two places only, so the installed value changes
  only when one of the two promises resolves.
\<close>

datatype extraction = DefaultImage "jsnum list" | Upload "jsnum list"

fun resolved_points :: "extraction \<Rightarrow> jsnum list" where
  "resolved_points (DefaultImage points) = points"
| "resolved_points (Upload points) = points"

fun App_resolve :: "extraction \<Rightarrow> AppState \<Rightarrow> AppState" where
  "App_resolve (DefaultImage points) st = default_image_resolved points st"
| "App_resolve (Upload points) st = upload_resolved points st"

fun App_run :: "extraction list \<Rightarrow> AppState \<Rightarrow> AppState" where
  "App_run [] st = st"
| "App_run (e # es) st = App_run es (App_resolve e st)"


section \<open>The vocabulary of the specification\<close>

text \<open>
  The targets as the specification words them; \<open>FORMED\<close> is the mode the code names
  \<open>TREE\<close>.
\<close>

definition target_progress_two_valued :: "InteractionMode \<Rightarrow> real" where
  "target_progress_two_valued mode = (if mode = TREE then 1 else 0)"

definition target_progress_three_way :: "InteractionMode \<Rightarrow> real" where
  "target_progress_three_way mode = (if mode = SCATTERED then 0 else 1)"

definition target_imageMix :: "InteractionMode \<Rightarrow> real" where
  "target_imageMix mode = (if mode = IMAGE then 1 else 0)"

definition target_visibility :: "InteractionMode \<Rightarrow> real" where
  "target_visibility mode = (if mode = IMAGE then 0 else 1)"

text \<open>A scalar is a finite number at most \<open>bound\<close> away from \<open>target\<close>.\<close>

fun close_to :: "real \<Rightarrow> real \<Rightarrow> jsnum \<Rightarrow> bool" where
  "close_to bound target (Num a) = (\<bar>a - target\<bar> \<le> bound)"
| "close_to bound target PosInf = False"
| "close_to bound target NegInf = False"
| "close_to bound target NaN = False"


text \<open>
  A layer's scalars after the frames of \<open>hold mode dts\<close>: the mode held constant
  while the deltas \<open>dts\<close> elapse.
\<close>

definition FoliageLayer_after :: "InteractionMode \<Rightarrow> real list \<Rightarrow> FoliageRefs \<Rightarrow> FoliageRefs" where
  "FoliageLayer_after mode dts r = run_frames FoliageLayer_useFrame (hold mode dts) r"

definition MorphingInstancedMesh_after :: "InteractionMode \<Rightarrow> real list \<Rightarrow> MorphRefs \<Rightarrow> MorphRefs" where
  "MorphingInstancedMesh_after mode dts r = run_frames MorphingInstancedMesh_useFrame (hold mode dts) r"

definition GiftBox_after :: "InteractionMode \<Rightarrow> real list \<Rightarrow> GiftRefs \<Rightarrow> GiftRefs" where
  "GiftBox_after mode dts r = run_frames GiftBox_useFrame (hold mode dts) r"

definition SnowFloor_after :: "InteractionMode \<Rightarrow> real list \<Rightarrow> jsnum \<Rightarrow> jsnum" where
  "SnowFloor_after mode dts v = run_frames SnowFloor_useFrame (hold mode dts) v"

definition FallingSnow_after :: "InteractionMode \<Rightarrow> real list \<Rightarrow> jsnum \<Rightarrow> jsnum" where
  "FallingSnow_after mode dts v = run_frames FallingSnow_useFrame (hold mode dts) v"

definition GoldParticleLayer_after :: "InteractionMode \<Rightarrow> real list \<Rightarrow> jsnum \<Rightarrow> jsnum" where
  "GoldParticleLayer_after mode dts v = run_frames GoldParticleLayer_useFrame (hold mode dts) v"

text \<open>
  The weighted luminance of a colour, in doubles as the code computes it; the three
  weights are the doubles nearest to 0.299, 0.587 and 0.114.
\<close>

definition w_red :: real where
  "w_red = fl 0.299"

definition w_green :: real where
  "w_green = fl 0.587"

definition w_blue :: real where
  "w_blue = fl 0.114"

definition luma :: "nat \<Rightarrow> nat \<Rightarrow> nat \<Rightarrow> real" where
  "luma r g b =
     dadd (dadd (dmul w_red (real r)) (dmul w_green (real g))) (dmul w_blue (real b))"

text \<open>
  Luminance and alpha of a pixel of the image, and the candidate test as the
  specification words it: a neighbour is a pixel of the image, so a pixel of the last
  column has no right neighbour and a pixel of the last row no bottom neighbour.
\<close>

definition luminance :: "int \<Rightarrow> (nat \<Rightarrow> nat) \<Rightarrow> int \<Rightarrow> int \<Rightarrow> real" where
  "luminance width data x y =
     luma (data (nat ((y * width + x) * 4)))
          (data (nat ((y * width + x) * 4) + 1))
          (data (nat ((y * width + x) * 4) + 2))"

definition alpha_of :: "int \<Rightarrow> (nat \<Rightarrow> nat) \<Rightarrow> int \<Rightarrow> int \<Rightarrow> nat" where
  "alpha_of width data x y = data (nat ((y * width + x) * 4 + 3))"

definition spec_candidate :: "int \<Rightarrow> int \<Rightarrow> (nat \<Rightarrow> nat) \<Rightarrow> int \<Rightarrow> int \<Rightarrow> bool" where
  "spec_candidate width height data x y =
     (50 \<le> alpha_of width data x y
      \<and> (luminance width data x y < 180
         \<or> (x + 1 < width
            \<and> 15 < \<bar>dsub (luminance width data x y) (luminance width data (x + 1) y)\<bar>)
         \<or> (y + 1 < height
            \<and> 15 < \<bar>dsub (luminance width data x y) (luminance width data x (y + 1))\<bar>)))"

text \<open>The luminance the code compares with: white (255) beyond the right and bottom edge.\<close>

definition padded_luminance :: "int \<Rightarrow> int \<Rightarrow> (nat \<Rightarrow> nat) \<Rightarrow> int \<Rightarrow> int \<Rightarrow> real" where
  "padded_luminance width height data x y =
     (if x < width \<and> y < height then luminance width data x y else 255)"

text \<open>A uniformly light-gray, opaque image: every pixel is \<open>(200, 200, 200, 255)\<close>.\<close>

definition gray_opaque :: "nat \<Rightarrow> nat" where
  "gray_opaque i = (if i mod 4 = 3 then 255 else 200)"

text \<open>The installed image point set is absent or has an entry that is not 0.\<close>

definition installed_ok :: "AppState \<Rightarrow> bool" where
  "installed_ok st =
     (case imagePoints st of None \<Rightarrow> True | Some pts \<Rightarrow> (\<exists>x \<in> set pts. x \<noteq> Num 0))"


section \<open>Properties of damp\<close>

lemma damp_Num:
  "damp (Num x) (Num y) (Num l) (Num d) =
     Num ((1 - (1 - exp (- l * d))) * x + (1 - exp (- l * d)) * y)"
  by (simp add: damp_def lerp_def jsub_def)

lemma damp_spec_update:
  "damp (Num x) (Num y) (Num l) (Num d) = Num (spec_update x y l d)"
  by (simp add: damp_Num spec_update_def algebra_simps)

lemma FoliageLayer_useFrame_Num:
  "FoliageLayer_useFrame \<lparr>fi_mode = mode, fi_delta = Num dt, fi_mounted = mt\<rparr>
       \<lparr>progressRef = Num p, imageMixRef = Num m\<rparr>
     = \<lparr>progressRef = Num (spec_update p (target_progress_three_way mode) 2 dt),
        imageMixRef = Num (spec_update m (target_imageMix mode) 1.5 dt)\<rparr>"
  by (simp add: FoliageLayer_useFrame_def Let_def damp_spec_update
      target_progress_three_way_def target_imageMix_def)

lemma MorphingInstancedMesh_useFrame_Num:
  "MorphingInstancedMesh_useFrame \<lparr>fi_mode = mode, fi_delta = Num dt, fi_mounted = True\<rparr>
       \<lparr>progress = Num p, visibilityScale = Num v\<rparr>
     = \<lparr>progress = Num (spec_update p (target_progress_two_valued mode) 2.5 dt),
        visibilityScale = Num (spec_update v (target_visibility mode) 3 dt)\<rparr>"
  by (simp add: MorphingInstancedMesh_useFrame_def Let_def damp_spec_update
      target_progress_two_valued_def target_visibility_def)

lemma GiftBox_useFrame_Num:
  "GiftBox_useFrame \<lparr>fi_mode = mode, fi_delta = Num dt, fi_mounted = True\<rparr>
       \<lparr>gift_progress = Num p, visScale = Num v\<rparr>
     = \<lparr>gift_progress = Num (spec_update p (target_progress_two_valued mode) 2 dt),
        visScale = Num (spec_update v (target_visibility mode) 3 dt)\<rparr>"
  by (simp add: GiftBox_useFrame_def Let_def damp_spec_update
      target_progress_two_valued_def target_visibility_def)

lemma single_useFrame_Num:
  "GoldParticleLayer_useFrame \<lparr>fi_mode = mode, fi_delta = Num dt, fi_mounted = mt\<rparr> (Num p)
     = Num (spec_update p (target_progress_two_valued mode) 2 dt)"
  "SnowFloor_useFrame \<lparr>fi_mode = mode, fi_delta = Num dt, fi_mounted = mt\<rparr> (Num p)
     = Num (spec_update p (target_progress_two_valued mode) 2 dt)"
  "FallingSnow_useFrame \<lparr>fi_mode = mode, fi_delta = Num dt, fi_mounted = mt\<rparr> (Num p)
     = Num (spec_update p (target_progress_two_valued mode) 2 dt)"
  by (simp_all add: GoldParticleLayer_useFrame_def SnowFloor_useFrame_def
      FallingSnow_useFrame_def Let_def damp_spec_update target_progress_two_valued_def)


section \<open>The scalars stay in the unit interval\<close>

lemma exp_neg_prod_le_one: "0 \<le> l \<Longrightarrow> 0 \<le> d \<Longrightarrow> exp (- l * d) \<le> (1::real)"
  by (simp add: mult_nonneg_nonneg)

lemma convex_unit:
  fixes e x y :: real
  assumes "0 \<le> e" "e \<le> 1" "0 \<le> x" "x \<le> 1" "0 \<le> y" "y \<le> 1"
  shows "0 \<le> (1 - (1 - e)) * x + (1 - e) * y" and "(1 - (1 - e)) * x + (1 - e) * y \<le> 1"
proof -
  show "0 \<le> (1 - (1 - e)) * x + (1 - e) * y" using assms by simp
  have "e * x \<le> e * 1" using assms by (intro mult_left_mono) auto
  moreover have "(1 - e) * y \<le> (1 - e) * 1" using assms by (intro mult_left_mono) auto
  ultimately show "(1 - (1 - e)) * x + (1 - e) * y \<le> 1" by simp
qed

lemma damp_in_unit:
  assumes "in_unit x" "in_unit y" "0 \<le> l" "nonneg d"
  shows "in_unit (damp x y (Num l) d)"
proof -
  obtain a where x: "x = Num a" and a: "0 \<le> a" "a \<le> 1" using assms(1) by (cases x) auto
  obtain b where y: "y = Num b" and b: "0 \<le> b" "b \<le> 1" using assms(2) by (cases y) auto
  obtain t where d: "d = Num t" and t: "0 \<le> t" using assms(4) by (cases d) auto
  have e: "0 \<le> exp (- l * t)" "exp (- l * t) \<le> 1"
    using exp_neg_prod_le_one [OF assms(3) t] by simp_all
  show ?thesis
    unfolding x y d damp_Num in_unit.simps
    using convex_unit [OF e a b] by simp
qed

lemma FoliageLayer_useFrame_in_unit:
  "nonneg (fi_delta f) \<Longrightarrow> in_unit (progressRef r) \<and> in_unit (imageMixRef r) \<Longrightarrow>
   in_unit (progressRef (FoliageLayer_useFrame f r)) \<and> in_unit (imageMixRef (FoliageLayer_useFrame f r))"
  by (simp add: FoliageLayer_useFrame_def Let_def damp_in_unit)

lemma MorphingInstancedMesh_useFrame_in_unit:
  "nonneg (fi_delta f) \<Longrightarrow> in_unit (progress r) \<and> in_unit (visibilityScale r) \<Longrightarrow>
   in_unit (progress (MorphingInstancedMesh_useFrame f r))
   \<and> in_unit (visibilityScale (MorphingInstancedMesh_useFrame f r))"
  by (simp add: MorphingInstancedMesh_useFrame_def Let_def damp_in_unit)

lemma GiftBox_useFrame_in_unit:
  "nonneg (fi_delta f) \<Longrightarrow> in_unit (gift_progress r) \<and> in_unit (visScale r) \<Longrightarrow>
   in_unit (gift_progress (GiftBox_useFrame f r)) \<and> in_unit (visScale (GiftBox_useFrame f r))"
  by (simp add: GiftBox_useFrame_def Let_def damp_in_unit)

lemma single_useFrame_in_unit:
  "nonneg (fi_delta f) \<Longrightarrow> in_unit v \<Longrightarrow> in_unit (GoldParticleLayer_useFrame f v)"
  "nonneg (fi_delta f) \<Longrightarrow> in_unit v \<Longrightarrow> in_unit (SnowFloor_useFrame f v)"
  "nonneg (fi_delta f) \<Longrightarrow> in_unit v \<Longrightarrow> in_unit (FallingSnow_useFrame f v)"
  by (simp_all add: GoldParticleLayer_useFrame_def SnowFloor_useFrame_def
      FallingSnow_useFrame_def Let_def damp_in_unit)

lemma run_frames_invariant:
  assumes "\<And>f s. f \<in> set frames \<Longrightarrow> P s \<Longrightarrow> P (step f s)" and "P s"
  shows "P (run_frames step frames s)"
  using assms
proof (induction frames arbitrary: s)
  case Nil
  then show ?case by simp
next
  case (Cons f fs)
  have "P (step f s)" using Cons.prems by simp
  moreover have "\<And>g t. g \<in> set fs \<Longrightarrow> P t \<Longrightarrow> P (step g t)" using Cons.prems(1) by simp
  ultimately show ?case using Cons.IH by simp
qed

lemma run_frames_take_invariant:
  assumes "\<forall>f \<in> set frames. nonneg (fi_delta f)"
    and "\<And>f s. nonneg (fi_delta f) \<Longrightarrow> P s \<Longrightarrow> P (step f s)" and "P s"
  shows "P (run_frames step (take n frames) s)"
proof (rule run_frames_invariant)
  fix f t assume "f \<in> set (take n frames)" "P t"
  then have "nonneg (fi_delta f)" using assms(1) by (meson in_set_takeD)
  then show "P (step f t)" using assms(2) \<open>P t\<close> by simp
qed (rule assms(3))

text \<open>
  Claim C1. Let every frame of a sequence carry a finite \<open>delta\<close> that is at least 0,
  whatever its mode, and let the scalars of a layer start in \<open>[0, 1]\<close>. Then after
  each frame of the sequence (after the first \<open>n\<close> frames, for every \<open>n\<close>) the
  progress, image-mix and visibility scalars of FoliageLayer, MorphingInstancedMesh,
  GiftBox, GoldParticleLayer, SnowFloor and FallingSnow are finite and in \<open>[0, 1]\<close>:
  damping toward a target that is 0 or 1 never overshoots.
\<close>

theorem C1_scalars_stay_in_unit_interval:
  assumes "\<forall>f \<in> set frames. nonneg (fi_delta f)"
  shows
    "(in_unit (progressRef fo) \<and> in_unit (imageMixRef fo) \<longrightarrow>
        in_unit (progressRef (run_frames FoliageLayer_useFrame (take n frames) fo))
        \<and> in_unit (imageMixRef (run_frames FoliageLayer_useFrame (take n frames) fo)))
     \<and> (in_unit (progress mo) \<and> in_unit (visibilityScale mo) \<longrightarrow>
        in_unit (progress (run_frames MorphingInstancedMesh_useFrame (take n frames) mo))
        \<and> in_unit (visibilityScale (run_frames MorphingInstancedMesh_useFrame (take n frames) mo)))
     \<and> (in_unit (gift_progress gi) \<and> in_unit (visScale gi) \<longrightarrow>
        in_unit (gift_progress (run_frames GiftBox_useFrame (take n frames) gi))
        \<and> in_unit (visScale (run_frames GiftBox_useFrame (take n frames) gi)))
     \<and> (in_unit v \<longrightarrow>
        in_unit (run_frames GoldParticleLayer_useFrame (take n frames) v)
        \<and> in_unit (run_frames SnowFloor_useFrame (take n frames) v)
        \<and> in_unit (run_frames FallingSnow_useFrame (take n frames) v))"
proof (intro conjI impI)
  assume h: "in_unit (progressRef fo) \<and> in_unit (imageMixRef fo)"
  have "in_unit (progressRef (run_frames FoliageLayer_useFrame (take n frames) fo))
        \<and> in_unit (imageMixRef (run_frames FoliageLayer_useFrame (take n frames) fo))"
    by (rule run_frames_take_invariant
        [where P = "\<lambda>r. in_unit (progressRef r) \<and> in_unit (imageMixRef r)", OF assms _ h])
       (rule FoliageLayer_useFrame_in_unit)
  then show "in_unit (progressRef (run_frames FoliageLayer_useFrame (take n frames) fo))"
    and "in_unit (imageMixRef (run_frames FoliageLayer_useFrame (take n frames) fo))" by simp_all
next
  assume h: "in_unit (progress mo) \<and> in_unit (visibilityScale mo)"
  have "in_unit (progress (run_frames MorphingInstancedMesh_useFrame (take n frames) mo))
        \<and> in_unit (visibilityScale (run_frames MorphingInstancedMesh_useFrame (take n frames) mo))"
    by (rule run_frames_take_invariant
        [where P = "\<lambda>r. in_unit (progress r) \<and> in_unit (visibilityScale r)", OF assms _ h])
       (rule MorphingInstancedMesh_useFrame_in_unit)
  then show "in_unit (progress (run_frames MorphingInstancedMesh_useFrame (take n frames) mo))"
    and "in_unit (visibilityScale (run_frames MorphingInstancedMesh_useFrame (take n frames) mo))"
    by simp_all
next
  assume h: "in_unit (gift_progress gi) \<and> in_unit (visScale gi)"
  have "in_unit (gift_progress (run_frames GiftBox_useFrame (take n frames) gi))
        \<and> in_unit (visScale (run_frames GiftBox_useFrame (take n frames) gi))"
    by (rule run_frames_take_invariant
        [where P = "\<lambda>r. in_unit (gift_progress r) \<and> in_unit (visScale r)", OF assms _ h])
       (rule GiftBox_useFrame_in_unit)
  then show "in_unit (gift_progress (run_frames GiftBox_useFrame (take n frames) gi))"
    and "in_unit (visScale (run_frames GiftBox_useFrame (take n frames) gi))" by simp_all
next
  assume h: "in_unit v"
  show "in_unit (run_frames GoldParticleLayer_useFrame (take n frames) v)"
    by (rule run_frames_take_invariant [where P = in_unit, OF assms _ h])
       (rule single_useFrame_in_unit)
  show "in_unit (run_frames SnowFloor_useFrame (take n frames) v)"
    by (rule run_frames_take_invariant [where P = in_unit, OF assms _ h])
       (rule single_useFrame_in_unit)
  show "in_unit (run_frames FallingSnow_useFrame (take n frames) v)"
    by (rule run_frames_take_invariant [where P = in_unit, OF assms _ h])
       (rule single_useFrame_in_unit)
qed

theorem C1_witness:
  "in_unit (progressRef (run_frames FoliageLayer_useFrame
       (take 1 [\<lparr>fi_mode = IMAGE, fi_delta = Num (1 / 60), fi_mounted = True\<rparr>])
       (FoliageLayer_init TREE)))
   \<and> in_unit (visibilityScale (run_frames MorphingInstancedMesh_useFrame
       (take 1 [\<lparr>fi_mode = IMAGE, fi_delta = Num (1 / 60), fi_mounted = True\<rparr>])
       (MorphingInstancedMesh_init TREE)))"
  using C1_scalars_stay_in_unit_interval
    [of "[\<lparr>fi_mode = IMAGE, fi_delta = Num (1 / 60), fi_mounted = True\<rparr>]"
        "FoliageLayer_init TREE" 1 "MorphingInstancedMesh_init TREE"]
  by (simp add: FoliageLayer_init_def MorphingInstancedMesh_init_def)


section \<open>damp refines the update rule of the specification\<close>

text \<open>
  Claim C3. On finite numbers \<open>THREE.MathUtils.damp(value, target, rate, deltaTime)\<close>
  returns \<open>target + (value - target) * exp(-rate * deltaTime)\<close>, the update rule of the
  specification; so do the frame callbacks of FoliageLayer (rates 2 and 1.5) and of
  MorphingInstancedMesh (rates 2.5 and 3) for their scalars. The equality holds for all
  finite arguments, in particular for value and target in \<open>[0, 1]\<close>, a positive rate
  and a non-negative deltaTime.
\<close>

theorem C3_damp_is_the_spec_update_rule:
  "damp (Num v) (Num target) (Num rate) (Num deltaTime)
     = Num (spec_update v target rate deltaTime)
   \<and> FoliageLayer_useFrame \<lparr>fi_mode = mode, fi_delta = Num deltaTime, fi_mounted = mt\<rparr>
         \<lparr>progressRef = Num p, imageMixRef = Num m\<rparr>
     = \<lparr>progressRef = Num (spec_update p (target_progress_three_way mode) 2 deltaTime),
        imageMixRef = Num (spec_update m (target_imageMix mode) 1.5 deltaTime)\<rparr>
   \<and> MorphingInstancedMesh_useFrame
         \<lparr>fi_mode = mode, fi_delta = Num deltaTime, fi_mounted = True\<rparr>
         \<lparr>progress = Num p, visibilityScale = Num vis\<rparr>
     = \<lparr>progress = Num (spec_update p (target_progress_two_valued mode) 2.5 deltaTime),
        visibilityScale = Num (spec_update vis (target_visibility mode) 3 deltaTime)\<rparr>"
  by (simp add: damp_spec_update FoliageLayer_useFrame_Num MorphingInstancedMesh_useFrame_Num)

theorem C3_witness:
  "damp (Num 1) (Num 0) (Num 2) (Num 1) = Num (exp (- 2))"
  using C3_damp_is_the_spec_update_rule [of 1 0 2 1]
  by (simp add: spec_update_def)


section \<open>The targets of the scalars\<close>

lemma if_Num: "(if c then Num a else Num b) = Num (if c then a else b)"
  by simp


text \<open>
  Claim C5. Each frame damps the progress scalar of a two-valued layer
  (MorphingInstancedMesh at rate 2.5; GiftBox, GoldParticleLayer, SnowFloor and
  FallingSnow at rate 2) toward 1 when the mode is \<open>TREE\<close> (the spec's FORMED) and
  toward 0 otherwise. FoliageLayer, the three-way layer, damps its progress toward 0
  in \<open>SCATTERED\<close> and toward 1 in \<open>TREE\<close> and in \<open>IMAGE\<close> alike, and its image mix
  toward 1 in \<open>IMAGE\<close> and toward 0 otherwise.
\<close>

theorem C5_targets_of_progress_and_imageMix:
  "FoliageLayer_useFrame f fo =
      \<lparr>progressRef = damp (progressRef fo) (Num (target_progress_three_way (fi_mode f)))
                       (Num 2) (fi_delta f),
       imageMixRef = damp (imageMixRef fo) (Num (target_imageMix (fi_mode f)))
                       (Num 1.5) (fi_delta f)\<rparr>
   \<and> progress (MorphingInstancedMesh_useFrame (f\<lparr>fi_mounted := True\<rparr>) mo) =
       damp (progress mo) (Num (target_progress_two_valued (fi_mode f))) (Num 2.5) (fi_delta f)
   \<and> gift_progress (GiftBox_useFrame (f\<lparr>fi_mounted := True\<rparr>) gi) =
       damp (gift_progress gi) (Num (target_progress_two_valued (fi_mode f))) (Num 2) (fi_delta f)
   \<and> GoldParticleLayer_useFrame f v =
       damp v (Num (target_progress_two_valued (fi_mode f))) (Num 2) (fi_delta f)
   \<and> SnowFloor_useFrame f v =
       damp v (Num (target_progress_two_valued (fi_mode f))) (Num 2) (fi_delta f)
   \<and> FallingSnow_useFrame f v =
       damp v (Num (target_progress_two_valued (fi_mode f))) (Num 2) (fi_delta f)
   \<and> target_progress_two_valued mode = (if mode = TREE then 1 else 0)
   \<and> target_progress_three_way TREE = 1 \<and> target_progress_three_way SCATTERED = 0
   \<and> target_progress_three_way IMAGE = 1
   \<and> target_imageMix mode = (if mode = IMAGE then 1 else 0)"
  by (simp add: FoliageLayer_useFrame_def MorphingInstancedMesh_useFrame_def
      GiftBox_useFrame_def GoldParticleLayer_useFrame_def SnowFloor_useFrame_def
      FallingSnow_useFrame_def Let_def if_Num target_progress_two_valued_def
      target_progress_three_way_def target_imageMix_def)

lemma damp_PosInf:
  "0 < l \<Longrightarrow> damp (Num x) (Num y) (Num l) PosInf = Num y"
  by (simp add: damp_def lerp_def jsub_def)

lemma damp_NaN: "damp x y l NaN = NaN"
  by (cases l) (simp_all add: damp_def lerp_def jsub_def)

lemma damp_NegInf:
  "0 < l \<Longrightarrow> 0 \<le> x \<Longrightarrow> y = 0 \<or> y = 1 \<Longrightarrow> damp (Num x) (Num y) (Num l) NegInf = NaN"
  by (auto simp add: damp_def lerp_def jsub_def)


theorem C5_witness:
  "FoliageLayer_useFrame \<lparr>fi_mode = IMAGE, fi_delta = PosInf, fi_mounted = True\<rparr>
       (FoliageLayer_init SCATTERED)
     = \<lparr>progressRef = Num 1, imageMixRef = Num 1\<rparr>
   \<and> GoldParticleLayer_useFrame \<lparr>fi_mode = IMAGE, fi_delta = PosInf, fi_mounted = True\<rparr>
       (GoldParticleLayer_init TREE) = Num 0"
  using C5_targets_of_progress_and_imageMix
    [of "\<lparr>fi_mode = IMAGE, fi_delta = PosInf, fi_mounted = True\<rparr>"
        "FoliageLayer_init SCATTERED" _ _ "GoldParticleLayer_init TREE" IMAGE]
  by (simp add: FoliageLayer_init_def GoldParticleLayer_init_def damp_PosInf)


section \<open>Visibility in image mode\<close>

text \<open>
  Claim C4. MorphingInstancedMesh (lights and ornaments) and GiftBox damp their
  visibility scalar, at rate 3, toward 0 when the mode is \<open>IMAGE\<close> and toward 1
  otherwise. GoldParticleLayer, the spiral ribbon of beads, has no visibility scalar:
  in \<open>IMAGE\<close> mode its callback only damps \<open>progressRef\<close> toward 0, and its shader
  sizes a bead from \<open>aRandom\<close> and the depth alone, so that the beads are drawn at
  full size (60 for \<open>aRandom = 1/2\<close> at depth 20) in every mode.
\<close>

theorem C4_GoldParticleLayer_is_not_hidden:
  "visibilityScale (MorphingInstancedMesh_useFrame (f\<lparr>fi_mounted := True\<rparr>) mo) =
       damp (visibilityScale mo) (Num (target_visibility (fi_mode f))) (Num 3) (fi_delta f)
   \<and> visScale (GiftBox_useFrame (f\<lparr>fi_mounted := True\<rparr>) gi) =
       damp (visScale gi) (Num (target_visibility (fi_mode f))) (Num 3) (fi_delta f)
   \<and> target_visibility mode = (if mode = IMAGE then 0 else 1)
   \<and> GoldParticleLayer_useFrame \<lparr>fi_mode = IMAGE, fi_delta = Num dt, fi_mounted = mt\<rparr> (Num p)
       = Num (spec_update p 0 2 dt)
   \<and> GoldParticleLayer_pointSize (1 / 2) (- 20) = 60"
  by (simp add: MorphingInstancedMesh_useFrame_def GiftBox_useFrame_def Let_def if_Num
      target_visibility_def single_useFrame_Num target_progress_two_valued_def
      GoldParticleLayer_pointSize_def)

theorem C4_witness:
  "GoldParticleLayer_useFrame \<lparr>fi_mode = IMAGE, fi_delta = Num 1, fi_mounted = True\<rparr> (Num 1)
     = Num (exp (- 2))
   \<and> GoldParticleLayer_pointSize (1 / 2) (- 20) = 60"
  using C4_GoldParticleLayer_is_not_hidden [of _ _ _ _ 1 True 1]
  by (simp add: spec_update_def)


section \<open>Non-finite deltas\<close>

text \<open>
  The claim C8 as stated, that a non-finite \<open>delta\<close> leaves every scalar finite and in
  \<open>[0, 1]\<close>, fails: with \<open>delta = NaN\<close> one frame turns the progress of FoliageLayer
  and the visibility of a mounted MorphingInstancedMesh into \<open>NaN\<close>.
\<close>

theorem C8_counterexample:
  "progressRef (FoliageLayer_useFrame \<lparr>fi_mode = TREE, fi_delta = NaN, fi_mounted = True\<rparr>
       (FoliageLayer_init TREE)) = NaN
   \<and> visibilityScale (MorphingInstancedMesh_useFrame
       \<lparr>fi_mode = TREE, fi_delta = NaN, fi_mounted = True\<rparr>
       (MorphingInstancedMesh_init TREE)) = NaN
   \<and> \<not> in_unit NaN \<and> \<not> isFinite NaN"
  by (simp add: FoliageLayer_useFrame_def MorphingInstancedMesh_useFrame_def
      FoliageLayer_init_def MorphingInstancedMesh_init_def Let_def damp_NaN)


text \<open>
  Claim C8, amended. No callback clamps or skips a frame because of its \<open>delta\<close>.
  With \<open>delta = +\<infinity>\<close> every damped scalar (of FoliageLayer, of a mounted
  MorphingInstancedMesh or GiftBox, of GoldParticleLayer, SnowFloor and FallingSnow)
  lands exactly on its target, which is 0 or 1, so it stays finite and in \<open>[0, 1]\<close>.
  With \<open>delta = NaN\<close> every one of these scalars becomes \<open>NaN\<close>; with
  \<open>delta = -\<infinity>\<close> the scalars of FoliageLayer, when not negative, become \<open>NaN\<close> as
  well.
\<close>

theorem C8_non_finite_delta:
  "FoliageLayer_useFrame \<lparr>fi_mode = mode, fi_delta = PosInf, fi_mounted = mt\<rparr>
       \<lparr>progressRef = Num p, imageMixRef = Num q\<rparr>
     = \<lparr>progressRef = Num (target_progress_three_way mode),
        imageMixRef = Num (target_imageMix mode)\<rparr>
   \<and> MorphingInstancedMesh_useFrame \<lparr>fi_mode = mode, fi_delta = PosInf, fi_mounted = True\<rparr>
       \<lparr>progress = Num p, visibilityScale = Num q\<rparr>
     = \<lparr>progress = Num (target_progress_two_valued mode),
        visibilityScale = Num (target_visibility mode)\<rparr>
   \<and> GiftBox_useFrame \<lparr>fi_mode = mode, fi_delta = PosInf, fi_mounted = True\<rparr>
       \<lparr>gift_progress = Num p, visScale = Num q\<rparr>
     = \<lparr>gift_progress = Num (target_progress_two_valued mode),
        visScale = Num (target_visibility mode)\<rparr>
   \<and> GoldParticleLayer_useFrame \<lparr>fi_mode = mode, fi_delta = PosInf, fi_mounted = mt\<rparr> (Num p)
     = Num (target_progress_two_valued mode)
   \<and> SnowFloor_useFrame \<lparr>fi_mode = mode, fi_delta = PosInf, fi_mounted = mt\<rparr> (Num p)
     = Num (target_progress_two_valued mode)
   \<and> FallingSnow_useFrame \<lparr>fi_mode = mode, fi_delta = PosInf, fi_mounted = mt\<rparr> (Num p)
     = Num (target_progress_two_valued mode)
   \<and> in_unit (Num (target_progress_three_way mode)) \<and> in_unit (Num (target_imageMix mode))
   \<and> in_unit (Num (target_progress_two_valued mode)) \<and> in_unit (Num (target_visibility mode))
   \<and> FoliageLayer_useFrame \<lparr>fi_mode = mode, fi_delta = NaN, fi_mounted = mt\<rparr> fo
     = \<lparr>progressRef = NaN, imageMixRef = NaN\<rparr>
   \<and> MorphingInstancedMesh_useFrame \<lparr>fi_mode = mode, fi_delta = NaN, fi_mounted = True\<rparr> mo
     = \<lparr>progress = NaN, visibilityScale = NaN\<rparr>
   \<and> GiftBox_useFrame \<lparr>fi_mode = mode, fi_delta = NaN, fi_mounted = True\<rparr> gi
     = \<lparr>gift_progress = NaN, visScale = NaN\<rparr>
   \<and> GoldParticleLayer_useFrame \<lparr>fi_mode = mode, fi_delta = NaN, fi_mounted = mt\<rparr> v = NaN
   \<and> SnowFloor_useFrame \<lparr>fi_mode = mode, fi_delta = NaN, fi_mounted = mt\<rparr> v = NaN
   \<and> FallingSnow_useFrame \<lparr>fi_mode = mode, fi_delta = NaN, fi_mounted = mt\<rparr> v = NaN
   \<and> (0 \<le> p \<and> 0 \<le> q \<longrightarrow>
        FoliageLayer_useFrame \<lparr>fi_mode = mode, fi_delta = NegInf, fi_mounted = mt\<rparr>
            \<lparr>progressRef = Num p, imageMixRef = Num q\<rparr>
          = \<lparr>progressRef = NaN, imageMixRef = NaN\<rparr>)"
proof (intro conjI impI)
  show "FoliageLayer_useFrame \<lparr>fi_mode = mode, fi_delta = PosInf, fi_mounted = mt\<rparr>
       \<lparr>progressRef = Num p, imageMixRef = Num q\<rparr>
     = \<lparr>progressRef = Num (target_progress_three_way mode),
        imageMixRef = Num (target_imageMix mode)\<rparr>"
    by (simp add: FoliageLayer_useFrame_def Let_def if_Num damp_PosInf
        target_progress_three_way_def target_imageMix_def)
  show "MorphingInstancedMesh_useFrame \<lparr>fi_mode = mode, fi_delta = PosInf, fi_mounted = True\<rparr>
       \<lparr>progress = Num p, visibilityScale = Num q\<rparr>
     = \<lparr>progress = Num (target_progress_two_valued mode),
        visibilityScale = Num (target_visibility mode)\<rparr>"
    by (simp add: MorphingInstancedMesh_useFrame_def Let_def if_Num damp_PosInf
        target_progress_two_valued_def target_visibility_def)
  show "GiftBox_useFrame \<lparr>fi_mode = mode, fi_delta = PosInf, fi_mounted = True\<rparr>
       \<lparr>gift_progress = Num p, visScale = Num q\<rparr>
     = \<lparr>gift_progress = Num (target_progress_two_valued mode),
        visScale = Num (target_visibility mode)\<rparr>"
    by (simp add: GiftBox_useFrame_def Let_def if_Num damp_PosInf
        target_progress_two_valued_def target_visibility_def)
  show "GoldParticleLayer_useFrame \<lparr>fi_mode = mode, fi_delta = PosInf, fi_mounted = mt\<rparr> (Num p)
     = Num (target_progress_two_valued mode)"
    by (simp add: GoldParticleLayer_useFrame_def Let_def if_Num damp_PosInf
        target_progress_two_valued_def)
  show "SnowFloor_useFrame \<lparr>fi_mode = mode, fi_delta = PosInf, fi_mounted = mt\<rparr> (Num p)
     = Num (target_progress_two_valued mode)"
    by (simp add: SnowFloor_useFrame_def Let_def if_Num damp_PosInf
        target_progress_two_valued_def)
  show "FallingSnow_useFrame \<lparr>fi_mode = mode, fi_delta = PosInf, fi_mounted = mt\<rparr> (Num p)
     = Num (target_progress_two_valued mode)"
    by (simp add: FallingSnow_useFrame_def Let_def if_Num damp_PosInf
        target_progress_two_valued_def)
  show "in_unit (Num (target_progress_three_way mode))"
    by (simp add: target_progress_three_way_def)
  show "in_unit (Num (target_imageMix mode))"
    by (simp add: target_imageMix_def)
  show "in_unit (Num (target_progress_two_valued mode))"
    by (simp add: target_progress_two_valued_def)
  show "in_unit (Num (target_visibility mode))"
    by (simp add: target_visibility_def)
  show "FoliageLayer_useFrame \<lparr>fi_mode = mode, fi_delta = NaN, fi_mounted = mt\<rparr> fo
     = \<lparr>progressRef = NaN, imageMixRef = NaN\<rparr>"
    by (simp add: FoliageLayer_useFrame_def Let_def damp_NaN)
  show "MorphingInstancedMesh_useFrame \<lparr>fi_mode = mode, fi_delta = NaN, fi_mounted = True\<rparr> mo
     = \<lparr>progress = NaN, visibilityScale = NaN\<rparr>"
    by (simp add: MorphingInstancedMesh_useFrame_def Let_def damp_NaN)
  show "GiftBox_useFrame \<lparr>fi_mode = mode, fi_delta = NaN, fi_mounted = True\<rparr> gi
     = \<lparr>gift_progress = NaN, visScale = NaN\<rparr>"
    by (simp add: GiftBox_useFrame_def Let_def damp_NaN)
  show "GoldParticleLayer_useFrame \<lparr>fi_mode = mode, fi_delta = NaN, fi_mounted = mt\<rparr> v = NaN"
    by (simp add: GoldParticleLayer_useFrame_def Let_def damp_NaN)
  show "SnowFloor_useFrame \<lparr>fi_mode = mode, fi_delta = NaN, fi_mounted = mt\<rparr> v = NaN"
    by (simp add: SnowFloor_useFrame_def Let_def damp_NaN)
  show "FallingSnow_useFrame \<lparr>fi_mode = mode, fi_delta = NaN, fi_mounted = mt\<rparr> v = NaN"
    by (simp add: FallingSnow_useFrame_def Let_def damp_NaN)
  assume "0 \<le> p \<and> 0 \<le> q"
  then show "FoliageLayer_useFrame \<lparr>fi_mode = mode, fi_delta = NegInf, fi_mounted = mt\<rparr>
            \<lparr>progressRef = Num p, imageMixRef = Num q\<rparr>
          = \<lparr>progressRef = NaN, imageMixRef = NaN\<rparr>"
    by (simp add: FoliageLayer_useFrame_def Let_def damp_NegInf)
qed

theorem C8_witness:
  "FoliageLayer_useFrame \<lparr>fi_mode = IMAGE, fi_delta = PosInf, fi_mounted = True\<rparr>
       \<lparr>progressRef = Num 0, imageMixRef = Num 0\<rparr>
     = \<lparr>progressRef = Num 1, imageMixRef = Num 1\<rparr>
   \<and> FoliageLayer_useFrame \<lparr>fi_mode = IMAGE, fi_delta = NegInf, fi_mounted = True\<rparr>
       \<lparr>progressRef = Num 0, imageMixRef = Num 0\<rparr>
     = \<lparr>progressRef = NaN, imageMixRef = NaN\<rparr>"
  using C8_non_finite_delta [of IMAGE True 0 0]
  by (simp add: target_progress_three_way_def target_imageMix_def)


section \<open>Convergence\<close>

lemma hold_Nil: "hold mode [] = []"
  by (simp add: hold_def)

lemma hold_Cons:
  "hold mode (d # ds) = \<lparr>fi_mode = mode, fi_delta = Num d, fi_mounted = True\<rparr> # hold mode ds"
  by (simp add: hold_def)

lemma spec_update_zero: "spec_update v t l 0 = v"
  by (simp add: spec_update_def)

lemma spec_update_compose:
  "spec_update (spec_update v t l d) t l T = spec_update v t l (d + T)"
proof -
  have "- l * (d + T) = - l * d + - l * T" by (simp add: ring_distribs)
  then have "exp (- l * (d + T)) = exp (- l * d) * exp (- l * T)"
    by (simp only: exp_add)
  then show ?thesis by (simp add: spec_update_def)
qed

lemma spec_update_error: "\<bar>spec_update v t l T - t\<bar> = \<bar>v - t\<bar> * exp (- l * T)"
  by (simp add: spec_update_def abs_mult)

lemma FoliageLayer_after_Num:
  "FoliageLayer_after mode dts \<lparr>progressRef = Num p, imageMixRef = Num q\<rparr>
     = \<lparr>progressRef = Num (spec_update p (target_progress_three_way mode) 2 (sum_list dts)),
        imageMixRef = Num (spec_update q (target_imageMix mode) 1.5 (sum_list dts))\<rparr>"
  unfolding FoliageLayer_after_def
proof (induction dts arbitrary: p q)
  case Nil
  show ?case by (simp add: hold_Nil spec_update_zero)
next
  case (Cons d ds)
  show ?case
    by (simp add: hold_Cons FoliageLayer_useFrame_Num Cons.IH spec_update_compose)
qed

lemma MorphingInstancedMesh_after_Num:
  "MorphingInstancedMesh_after mode dts \<lparr>progress = Num p, visibilityScale = Num q\<rparr>
     = \<lparr>progress = Num (spec_update p (target_progress_two_valued mode) 2.5 (sum_list dts)),
        visibilityScale = Num (spec_update q (target_visibility mode) 3 (sum_list dts))\<rparr>"
  unfolding MorphingInstancedMesh_after_def
proof (induction dts arbitrary: p q)
  case Nil
  show ?case by (simp add: hold_Nil spec_update_zero)
next
  case (Cons d ds)
  show ?case
    by (simp add: hold_Cons MorphingInstancedMesh_useFrame_Num Cons.IH spec_update_compose)
qed

lemma GiftBox_after_Num:
  "GiftBox_after mode dts \<lparr>gift_progress = Num p, visScale = Num q\<rparr>
     = \<lparr>gift_progress = Num (spec_update p (target_progress_two_valued mode) 2 (sum_list dts)),
        visScale = Num (spec_update q (target_visibility mode) 3 (sum_list dts))\<rparr>"
  unfolding GiftBox_after_def
proof (induction dts arbitrary: p q)
  case Nil
  show ?case by (simp add: hold_Nil spec_update_zero)
next
  case (Cons d ds)
  show ?case
    by (simp add: hold_Cons GiftBox_useFrame_Num Cons.IH spec_update_compose)
qed

lemma GoldParticleLayer_after_Num:
  "GoldParticleLayer_after mode dts (Num p)
     = Num (spec_update p (target_progress_two_valued mode) 2 (sum_list dts))"
  unfolding GoldParticleLayer_after_def
proof (induction dts arbitrary: p)
  case Nil
  show ?case by (simp add: hold_Nil spec_update_zero)
next
  case (Cons d ds)
  show ?case
    by (simp add: hold_Cons single_useFrame_Num Cons.IH spec_update_compose)
qed

lemma SnowFloor_after_Num:
  "SnowFloor_after mode dts (Num p)
     = Num (spec_update p (target_progress_two_valued mode) 2 (sum_list dts))"
  unfolding SnowFloor_after_def
proof (induction dts arbitrary: p)
  case Nil
  show ?case by (simp add: hold_Nil spec_update_zero)
next
  case (Cons d ds)
  show ?case
    by (simp add: hold_Cons single_useFrame_Num Cons.IH spec_update_compose)
qed

lemma FallingSnow_after_Num:
  "FallingSnow_after mode dts (Num p)
     = Num (spec_update p (target_progress_two_valued mode) 2 (sum_list dts))"
  unfolding FallingSnow_after_def
proof (induction dts arbitrary: p)
  case Nil
  show ?case by (simp add: hold_Nil spec_update_zero)
next
  case (Cons d ds)
  show ?case
    by (simp add: hold_Cons single_useFrame_Num Cons.IH spec_update_compose)
qed

lemma decay_below:
  fixes eps :: real
  assumes "0 < eps"
  shows "\<exists>T. 0 \<le> T \<and> (\<forall>S l. T \<le> S \<and> 3 / 2 \<le> l \<longrightarrow> exp (- l * S) \<le> eps)"
proof (intro exI conjI allI impI)
  let ?T = "max 0 (- ln eps / (3 / 2))"
  show "0 \<le> ?T" by simp
  fix S l :: real
  assume h: "?T \<le> S \<and> 3 / 2 \<le> l"
  then have S: "0 \<le> S" and l: "3 / 2 \<le> l" and T: "- ln eps / (3 / 2) \<le> S" by simp_all
  have "- ln eps \<le> (3 / 2) * S" using T by (simp add: field_simps)
  also have "\<dots> \<le> l * S" using l S by (intro mult_right_mono) auto
  finally have "- l * S \<le> ln eps" by simp
  then have "exp (- l * S) \<le> exp (ln eps)" by (simp only: exp_le_cancel_iff)
  then show "exp (- l * S) \<le> eps" using assms by simp
qed

lemma unit_error_le:
  fixes v t e eps :: real
  assumes "0 \<le> v" "v \<le> 1" "0 \<le> t" "t \<le> 1" "0 \<le> e" "e \<le> eps"
  shows "\<bar>v - t\<bar> * e \<le> eps"
proof -
  have "\<bar>v - t\<bar> \<le> 1" using assms by (simp add: abs_le_iff)
  then have "\<bar>v - t\<bar> * e \<le> 1 * e" using assms(5) by (intro mult_right_mono) auto
  then show ?thesis using assms(6) by simp
qed

lemma close_to_eps:
  assumes "0 \<le> v" "v \<le> 1" "0 \<le> t" "t \<le> 1" "exp (- l * T) \<le> eps"
  shows "close_to eps t (Num (spec_update v t l T))"
  using unit_error_le [OF assms(1-4) _ assms(5)] by (simp add: spec_update_error)

lemma targets_in_unit:
  "0 \<le> target_progress_two_valued mode" "target_progress_two_valued mode \<le> 1"
  "0 \<le> target_progress_three_way mode" "target_progress_three_way mode \<le> 1"
  "0 \<le> target_imageMix mode" "target_imageMix mode \<le> 1"
  "0 \<le> target_visibility mode" "target_visibility mode \<le> 1"
  by (simp_all add: target_progress_two_valued_def target_progress_three_way_def
      target_imageMix_def target_visibility_def)

text \<open>
  Claim C9. Hold the mode constant while deltas \<open>dts\<close> elapse, \<open>S\<close> being their sum.
  Every scalar (of FoliageLayer, of a mounted MorphingInstancedMesh or GiftBox, of
  GoldParticleLayer, SnowFloor and FallingSnow) that starts at a value \<open>v\<close> of
  \<open>[0, 1]\<close> ends at most
  \<open>\<bar>v - target\<bar> * exp (- rate * S)\<close> away from its target, with the rate of that
  scalar. Hence for every \<open>eps > 0\<close> there is a time \<open>T\<close> such that \<open>T \<le> S\<close> puts every
  scalar within \<open>eps\<close> of its target; and starting formed (\<open>TREE\<close>, progress 1),
  holding \<open>SCATTERED\<close> for at least \<open>T\<close> brings the progress of each layer within
  \<open>eps\<close> of 0, and then holding \<open>TREE\<close> for at least \<open>T\<close> brings it back within
  \<open>eps\<close> of 1.
\<close>

theorem C9_convergence_under_constant_mode:
  fixes eps :: real
  assumes "0 < eps"
  shows "\<exists>T.
     (\<forall>mode dts p q. 0 \<le> p \<and> p \<le> 1 \<and> 0 \<le> q \<and> q \<le> 1 \<longrightarrow>
       (close_to (\<bar>p - target_progress_three_way mode\<bar> * exp (- 2 * sum_list dts))
          (target_progress_three_way mode)
          (progressRef (FoliageLayer_after mode dts \<lparr>progressRef = Num p, imageMixRef = Num q\<rparr>))
        \<and> close_to (\<bar>q - target_imageMix mode\<bar> * exp (- 1.5 * sum_list dts))
          (target_imageMix mode)
          (imageMixRef (FoliageLayer_after mode dts \<lparr>progressRef = Num p, imageMixRef = Num q\<rparr>))
        \<and> close_to (\<bar>p - target_progress_two_valued mode\<bar> * exp (- 2.5 * sum_list dts))
          (target_progress_two_valued mode)
          (progress (MorphingInstancedMesh_after mode dts
             \<lparr>progress = Num p, visibilityScale = Num q\<rparr>))
        \<and> close_to (\<bar>q - target_visibility mode\<bar> * exp (- 3 * sum_list dts))
          (target_visibility mode)
          (visibilityScale (MorphingInstancedMesh_after mode dts
             \<lparr>progress = Num p, visibilityScale = Num q\<rparr>))
        \<and> close_to (\<bar>p - target_progress_two_valued mode\<bar> * exp (- 2 * sum_list dts))
          (target_progress_two_valued mode)
          (gift_progress (GiftBox_after mode dts \<lparr>gift_progress = Num p, visScale = Num q\<rparr>))
        \<and> close_to (\<bar>q - target_visibility mode\<bar> * exp (- 3 * sum_list dts))
          (target_visibility mode)
          (visScale (GiftBox_after mode dts \<lparr>gift_progress = Num p, visScale = Num q\<rparr>))
        \<and> close_to (\<bar>p - target_progress_two_valued mode\<bar> * exp (- 2 * sum_list dts))
          (target_progress_two_valued mode)
          (GoldParticleLayer_after mode dts (Num p))
        \<and> close_to (\<bar>p - target_progress_two_valued mode\<bar> * exp (- 2 * sum_list dts))
          (target_progress_two_valued mode)
          (SnowFloor_after mode dts (Num p))
        \<and> close_to (\<bar>p - target_progress_two_valued mode\<bar> * exp (- 2 * sum_list dts))
          (target_progress_two_valued mode)
          (FallingSnow_after mode dts (Num p)))
       \<and> (T \<le> sum_list dts \<longrightarrow>
          close_to eps (target_progress_three_way mode)
            (progressRef (FoliageLayer_after mode dts \<lparr>progressRef = Num p, imageMixRef = Num q\<rparr>))
          \<and> close_to eps (target_imageMix mode)
            (imageMixRef (FoliageLayer_after mode dts \<lparr>progressRef = Num p, imageMixRef = Num q\<rparr>))
          \<and> close_to eps (target_progress_two_valued mode)
            (progress (MorphingInstancedMesh_after mode dts
               \<lparr>progress = Num p, visibilityScale = Num q\<rparr>))
          \<and> close_to eps (target_visibility mode)
            (visibilityScale (MorphingInstancedMesh_after mode dts
               \<lparr>progress = Num p, visibilityScale = Num q\<rparr>))
          \<and> close_to eps (target_progress_two_valued mode)
            (gift_progress (GiftBox_after mode dts \<lparr>gift_progress = Num p, visScale = Num q\<rparr>))
          \<and> close_to eps (target_visibility mode)
            (visScale (GiftBox_after mode dts \<lparr>gift_progress = Num p, visScale = Num q\<rparr>))
          \<and> close_to eps (target_progress_two_valued mode)
            (GoldParticleLayer_after mode dts (Num p))
          \<and> close_to eps (target_progress_two_valued mode)
            (SnowFloor_after mode dts (Num p))
          \<and> close_to eps (target_progress_two_valued mode)
            (FallingSnow_after mode dts (Num p))))
     \<and> (\<forall>dts dts'. T \<le> sum_list dts \<and> T \<le> sum_list dts' \<longrightarrow>
          close_to eps 0 (progressRef (FoliageLayer_after SCATTERED dts (FoliageLayer_init TREE)))
          \<and> close_to eps 1 (progressRef (FoliageLayer_after TREE dts'
               (FoliageLayer_after SCATTERED dts (FoliageLayer_init TREE))))
          \<and> close_to eps 0 (progress (MorphingInstancedMesh_after SCATTERED dts
               (MorphingInstancedMesh_init TREE)))
          \<and> close_to eps 1 (progress (MorphingInstancedMesh_after TREE dts'
               (MorphingInstancedMesh_after SCATTERED dts (MorphingInstancedMesh_init TREE))))
          \<and> close_to eps 0 (gift_progress (GiftBox_after SCATTERED dts (GiftBox_init TREE)))
          \<and> close_to eps 1 (gift_progress (GiftBox_after TREE dts'
               (GiftBox_after SCATTERED dts (GiftBox_init TREE))))
          \<and> close_to eps 0 (GoldParticleLayer_after SCATTERED dts (GoldParticleLayer_init TREE))
          \<and> close_to eps 1 (GoldParticleLayer_after TREE dts'
               (GoldParticleLayer_after SCATTERED dts (GoldParticleLayer_init TREE)))
          \<and> close_to eps 0 (SnowFloor_after SCATTERED dts (SnowFloor_init TREE))
          \<and> close_to eps 1 (SnowFloor_after TREE dts'
               (SnowFloor_after SCATTERED dts (SnowFloor_init TREE)))
          \<and> close_to eps 0 (FallingSnow_after SCATTERED dts (FallingSnow_init TREE))
          \<and> close_to eps 1 (FallingSnow_after TREE dts'
               (FallingSnow_after SCATTERED dts (FallingSnow_init TREE))))"
proof -
  obtain T where T: "0 \<le> T" and dec: "\<And>S l. T \<le> S \<Longrightarrow> 3 / 2 \<le> l \<Longrightarrow> exp (- l * S) \<le> eps"
    using decay_below [OF assms] by blast
  have bound: "\<And>v t l S. 0 \<le> v \<Longrightarrow> v \<le> 1 \<Longrightarrow> 0 \<le> t \<Longrightarrow> t \<le> 1 \<Longrightarrow> T \<le> S \<Longrightarrow> 3 / 2 \<le> l
      \<Longrightarrow> \<bar>spec_update v t l S - t\<bar> \<le> eps"
  proof -
    fix v t l S :: real
    assume h: "0 \<le> v" "v \<le> 1" "0 \<le> t" "t \<le> 1" "T \<le> S" "3 / 2 \<le> l"
    have "close_to eps t (Num (spec_update v t l S))"
      using h(1-4) dec [OF h(5,6)] by (rule close_to_eps)
    then show "\<bar>spec_update v t l S - t\<bar> \<le> eps" by simp
  qed
  have su_unit: "\<And>v t l S. 0 \<le> v \<Longrightarrow> v \<le> 1 \<Longrightarrow> 0 \<le> t \<Longrightarrow> t \<le> 1 \<Longrightarrow> 0 \<le> S \<Longrightarrow> 0 \<le> l
      \<Longrightarrow> 0 \<le> spec_update v t l S \<and> spec_update v t l S \<le> 1"
  proof -
    fix v t l S :: real
    assume h: "0 \<le> v" "v \<le> 1" "0 \<le> t" "t \<le> 1" "0 \<le> S" "0 \<le> l"
    have "in_unit (damp (Num v) (Num t) (Num l) (Num S))"
      using h by (intro damp_in_unit) simp_all
    then show "0 \<le> spec_update v t l S \<and> spec_update v t l S \<le> 1"
      by (simp add: damp_spec_update)
  qed
  show ?thesis
  proof (intro exI [of _ T] allI impI conjI)
    fix mode dts and p q :: real
    assume pq: "0 \<le> p \<and> p \<le> 1 \<and> 0 \<le> q \<and> q \<le> 1"
    show "close_to (\<bar>p - target_progress_three_way mode\<bar> * exp (- 2 * sum_list dts))
        (target_progress_three_way mode)
        (progressRef (FoliageLayer_after mode dts \<lparr>progressRef = Num p, imageMixRef = Num q\<rparr>))"
      by (simp add: FoliageLayer_after_Num spec_update_error)
    show "close_to (\<bar>q - target_imageMix mode\<bar> * exp (- 1.5 * sum_list dts))
        (target_imageMix mode)
        (imageMixRef (FoliageLayer_after mode dts \<lparr>progressRef = Num p, imageMixRef = Num q\<rparr>))"
      by (simp add: FoliageLayer_after_Num spec_update_error)
    show "close_to (\<bar>p - target_progress_two_valued mode\<bar> * exp (- 2.5 * sum_list dts))
        (target_progress_two_valued mode)
        (progress (MorphingInstancedMesh_after mode dts
           \<lparr>progress = Num p, visibilityScale = Num q\<rparr>))"
      by (simp add: MorphingInstancedMesh_after_Num spec_update_error)
    show "close_to (\<bar>q - target_visibility mode\<bar> * exp (- 3 * sum_list dts))
        (target_visibility mode)
        (visibilityScale (MorphingInstancedMesh_after mode dts
           \<lparr>progress = Num p, visibilityScale = Num q\<rparr>))"
      by (simp add: MorphingInstancedMesh_after_Num spec_update_error)
    show "close_to (\<bar>p - target_progress_two_valued mode\<bar> * exp (- 2 * sum_list dts))
        (target_progress_two_valued mode)
        (gift_progress (GiftBox_after mode dts \<lparr>gift_progress = Num p, visScale = Num q\<rparr>))"
      by (simp add: GiftBox_after_Num spec_update_error)
    show "close_to (\<bar>q - target_visibility mode\<bar> * exp (- 3 * sum_list dts))
        (target_visibility mode)
        (visScale (GiftBox_after mode dts \<lparr>gift_progress = Num p, visScale = Num q\<rparr>))"
      by (simp add: GiftBox_after_Num spec_update_error)
    show "close_to (\<bar>p - target_progress_two_valued mode\<bar> * exp (- 2 * sum_list dts))
        (target_progress_two_valued mode)
        (GoldParticleLayer_after mode dts (Num p))"
      by (simp add: GoldParticleLayer_after_Num spec_update_error)
    show "close_to (\<bar>p - target_progress_two_valued mode\<bar> * exp (- 2 * sum_list dts))
        (target_progress_two_valued mode)
        (SnowFloor_after mode dts (Num p))"
      by (simp add: SnowFloor_after_Num spec_update_error)
    show "close_to (\<bar>p - target_progress_two_valued mode\<bar> * exp (- 2 * sum_list dts))
        (target_progress_two_valued mode)
        (FallingSnow_after mode dts (Num p))"
      by (simp add: FallingSnow_after_Num spec_update_error)
    assume S: "T \<le> sum_list dts"
    show "close_to eps (target_progress_three_way mode)
          (progressRef (FoliageLayer_after mode dts \<lparr>progressRef = Num p, imageMixRef = Num q\<rparr>))"
      using pq S by (simp add: FoliageLayer_after_Num bound targets_in_unit)
    show "close_to eps (target_imageMix mode)
          (imageMixRef (FoliageLayer_after mode dts \<lparr>progressRef = Num p, imageMixRef = Num q\<rparr>))"
      using pq S by (simp add: FoliageLayer_after_Num bound targets_in_unit)
    show "close_to eps (target_progress_two_valued mode)
          (progress (MorphingInstancedMesh_after mode dts
             \<lparr>progress = Num p, visibilityScale = Num q\<rparr>))"
      using pq S by (simp add: MorphingInstancedMesh_after_Num bound targets_in_unit)
    show "close_to eps (target_visibility mode)
          (visibilityScale (MorphingInstancedMesh_after mode dts
             \<lparr>progress = Num p, visibilityScale = Num q\<rparr>))"
      using pq S by (simp add: MorphingInstancedMesh_after_Num bound targets_in_unit)
    show "close_to eps (target_progress_two_valued mode)
          (gift_progress (GiftBox_after mode dts \<lparr>gift_progress = Num p, visScale = Num q\<rparr>))"
      using pq S by (simp add: GiftBox_after_Num bound targets_in_unit)
    show "close_to eps (target_visibility mode)
          (visScale (GiftBox_after mode dts \<lparr>gift_progress = Num p, visScale = Num q\<rparr>))"
      using pq S by (simp add: GiftBox_after_Num bound targets_in_unit)
    show "close_to eps (target_progress_two_valued mode)
          (GoldParticleLayer_after mode dts (Num p))"
      using pq S by (simp add: GoldParticleLayer_after_Num bound targets_in_unit)
    show "close_to eps (target_progress_two_valued mode)
          (SnowFloor_after mode dts (Num p))"
      using pq S by (simp add: SnowFloor_after_Num bound targets_in_unit)
    show "close_to eps (target_progress_two_valued mode)
          (FallingSnow_after mode dts (Num p))"
      using pq S by (simp add: FallingSnow_after_Num bound targets_in_unit)
  next
    fix dts dts' :: "real list"
    assume SS: "T \<le> sum_list dts \<and> T \<le> sum_list dts'"
    then have S: "T \<le> sum_list dts" and S': "T \<le> sum_list dts'" by simp_all
    have S0: "0 \<le> sum_list dts" using T S by simp
    show "close_to eps 0 (progressRef (FoliageLayer_after SCATTERED dts (FoliageLayer_init TREE)))"
      using bound [where v = 1 and t = 0 and l = 2 and S = "sum_list dts"] S
      by (simp add: FoliageLayer_init_def FoliageLayer_after_Num target_progress_three_way_def)
    show "close_to eps 1 (progressRef (FoliageLayer_after TREE dts'
                  (FoliageLayer_after SCATTERED dts (FoliageLayer_init TREE))))"
      using bound [where v = "spec_update 1 0 2 (sum_list dts)" and t = 1 and l = 2
          and S = "sum_list dts'"] S'
        su_unit [where v = 1 and t = 0 and S = "sum_list dts" and l = 2] S0
      by (simp add: FoliageLayer_init_def FoliageLayer_after_Num target_progress_three_way_def)
    show "close_to eps 0 (progress (MorphingInstancedMesh_after SCATTERED dts
                  (MorphingInstancedMesh_init TREE)))"
      using bound [where v = 1 and t = 0 and l = "5 / 2" and S = "sum_list dts"] S
      by (simp add: MorphingInstancedMesh_init_def MorphingInstancedMesh_after_Num
          target_progress_two_valued_def)
    show "close_to eps 1 (progress (MorphingInstancedMesh_after TREE dts'
                  (MorphingInstancedMesh_after SCATTERED dts (MorphingInstancedMesh_init TREE))))"
      using bound [where v = "spec_update 1 0 (5 / 2) (sum_list dts)" and t = 1 and l = "5 / 2"
          and S = "sum_list dts'"] S'
        su_unit [where v = 1 and t = 0 and S = "sum_list dts" and l = "5 / 2"] S0
      by (simp add: MorphingInstancedMesh_init_def MorphingInstancedMesh_after_Num
          target_progress_two_valued_def)
    show "close_to eps 0 (gift_progress (GiftBox_after SCATTERED dts (GiftBox_init TREE)))"
      using bound [where v = 1 and t = 0 and l = 2 and S = "sum_list dts"] S
      by (simp add: GiftBox_init_def GiftBox_after_Num target_progress_two_valued_def)
    show "close_to eps 1 (gift_progress (GiftBox_after TREE dts'
               (GiftBox_after SCATTERED dts (GiftBox_init TREE))))"
      using bound [where v = "spec_update 1 0 2 (sum_list dts)" and t = 1 and l = 2
          and S = "sum_list dts'"] S'
        su_unit [where v = 1 and t = 0 and S = "sum_list dts" and l = 2] S0
      by (simp add: GiftBox_init_def GiftBox_after_Num target_progress_two_valued_def)
    show "close_to eps 0 (GoldParticleLayer_after SCATTERED dts (GoldParticleLayer_init TREE))"
      using bound [where v = 1 and t = 0 and l = 2 and S = "sum_list dts"] S
      by (simp add: GoldParticleLayer_init_def GoldParticleLayer_after_Num target_progress_two_valued_def)
    show "close_to eps 1 (GoldParticleLayer_after TREE dts'
               (GoldParticleLayer_after SCATTERED dts (GoldParticleLayer_init TREE)))"
      using bound [where v = "spec_update 1 0 2 (sum_list dts)" and t = 1 and l = 2
          and S = "sum_list dts'"] S'
        su_unit [where v = 1 and t = 0 and S = "sum_list dts" and l = 2] S0
      by (simp add: GoldParticleLayer_init_def GoldParticleLayer_after_Num target_progress_two_valued_def)
    show "close_to eps 0 (SnowFloor_after SCATTERED dts (SnowFloor_init TREE))"
      using bound [where v = 1 and t = 0 and l = 2 and S = "sum_list dts"] S
      by (simp add: SnowFloor_init_def SnowFloor_after_Num target_progress_two_valued_def)
    show "close_to eps 1 (SnowFloor_after TREE dts'
               (SnowFloor_after SCATTERED dts (SnowFloor_init TREE)))"
      using bound [where v = "spec_update 1 0 2 (sum_list dts)" and t = 1 and l = 2
          and S = "sum_list dts'"] S'
        su_unit [where v = 1 and t = 0 and S = "sum_list dts" and l = 2] S0
      by (simp add: SnowFloor_init_def SnowFloor_after_Num target_progress_two_valued_def)
    show "close_to eps 0 (FallingSnow_after SCATTERED dts (FallingSnow_init TREE))"
      using bound [where v = 1 and t = 0 and l = 2 and S = "sum_list dts"] S
      by (simp add: FallingSnow_init_def FallingSnow_after_Num target_progress_two_valued_def)
    show "close_to eps 1 (FallingSnow_after TREE dts'
               (FallingSnow_after SCATTERED dts (FallingSnow_init TREE)))"
      using bound [where v = "spec_update 1 0 2 (sum_list dts)" and t = 1 and l = 2
          and S = "sum_list dts'"] S'
        su_unit [where v = 1 and t = 0 and S = "sum_list dts" and l = 2] S0
      by (simp add: FallingSnow_init_def FallingSnow_after_Num target_progress_two_valued_def)
  qed
qed

theorem C9_witness:
  "\<exists>T. close_to (1 / 1000) 0
         (progressRef (FoliageLayer_after SCATTERED [T] (FoliageLayer_init TREE)))
       \<and> close_to (1 / 1000) 1
         (progressRef (FoliageLayer_after TREE [T]
            (FoliageLayer_after SCATTERED [T] (FoliageLayer_init TREE))))"
proof -
  have pos: "(0::real) < 1 / 1000" by simp
  obtain T where "\<forall>dts dts'. T \<le> sum_list dts \<and> T \<le> sum_list dts' \<longrightarrow>
          close_to (1 / 1000) 0
            (progressRef (FoliageLayer_after SCATTERED dts (FoliageLayer_init TREE)))
          \<and> close_to (1 / 1000) 1 (progressRef (FoliageLayer_after TREE dts'
               (FoliageLayer_after SCATTERED dts (FoliageLayer_init TREE))))
          \<and> close_to (1 / 1000) 0 (progress (MorphingInstancedMesh_after SCATTERED dts
               (MorphingInstancedMesh_init TREE)))
          \<and> close_to (1 / 1000) 1 (progress (MorphingInstancedMesh_after TREE dts'
               (MorphingInstancedMesh_after SCATTERED dts (MorphingInstancedMesh_init TREE))))
          \<and> close_to (1 / 1000) 0 (gift_progress (GiftBox_after SCATTERED dts (GiftBox_init TREE)))
          \<and> close_to (1 / 1000) 1 (gift_progress (GiftBox_after TREE dts'
               (GiftBox_after SCATTERED dts (GiftBox_init TREE))))
          \<and> close_to (1 / 1000) 0 (GoldParticleLayer_after SCATTERED dts (GoldParticleLayer_init TREE))
          \<and> close_to (1 / 1000) 1 (GoldParticleLayer_after TREE dts'
               (GoldParticleLayer_after SCATTERED dts (GoldParticleLayer_init TREE)))
          \<and> close_to (1 / 1000) 0 (SnowFloor_after SCATTERED dts (SnowFloor_init TREE))
          \<and> close_to (1 / 1000) 1 (SnowFloor_after TREE dts'
               (SnowFloor_after SCATTERED dts (SnowFloor_init TREE)))
          \<and> close_to (1 / 1000) 0 (FallingSnow_after SCATTERED dts (FallingSnow_init TREE))
          \<and> close_to (1 / 1000) 1 (FallingSnow_after TREE dts'
               (FallingSnow_after SCATTERED dts (FallingSnow_init TREE)))"
    using C9_convergence_under_constant_mode [OF pos] by (elim exE conjE)
  then have "close_to (1 / 1000) 0
         (progressRef (FoliageLayer_after SCATTERED [T] (FoliageLayer_init TREE)))
       \<and> close_to (1 / 1000) 1
         (progressRef (FoliageLayer_after TREE [T]
            (FoliageLayer_after SCATTERED [T] (FoliageLayer_init TREE))))"
    by (elim allE [of _ "[T]"]) simp
  then show ?thesis by (rule exI)
qed


section \<open>The image-configuration buffer of FoliageLayer\<close>

text \<open>
  Claim C6. With \<open>N = count\<close> particles, the effect installs a supplied buffer as the
  \<open>aImagePos\<close> attribute exactly when its length is \<open>3 * N\<close>. A supplied buffer of any
  other length, and an absent buffer, leave the attribute on \<open>treePositions\<close>, the
  fallback it was mounted with. The effect always returns (it has no failing branch):
  with the geometry mounted it yields a geometry whose attribute is the fallback or
  the supplied buffer of length \<open>3 * N\<close>; without it nothing is touched.
\<close>

theorem C6_image_buffer_needs_exact_length:
  "(length pts = 3 * count \<longrightarrow>
      FoliageLayer_useEffect count treePositions (Some pts) (Some g)
        = Some (g\<lparr>aImagePos := pts\<rparr>))
   \<and> (length pts \<noteq> 3 * count \<longrightarrow>
      FoliageLayer_useEffect count treePositions (Some pts) (Some g)
        = Some (g\<lparr>aImagePos := treePositions\<rparr>))
   \<and> FoliageLayer_useEffect count treePositions None (Some g)
        = Some (g\<lparr>aImagePos := treePositions\<rparr>)
   \<and> (length pts \<noteq> 3 * count \<longrightarrow>
      FoliageLayer_useEffect count treePositions (Some pts)
          (Some (FoliageLayer_mount treePositions))
        = Some (FoliageLayer_mount treePositions))
   \<and> FoliageLayer_useEffect count treePositions None (Some (FoliageLayer_mount treePositions))
        = Some (FoliageLayer_mount treePositions)
   \<and> (\<exists>g'. FoliageLayer_useEffect count treePositions supplied (Some g) = Some g'
         \<and> (aImagePos g' = treePositions
              \<or> supplied = Some (aImagePos g') \<and> length (aImagePos g') = 3 * count))
   \<and> FoliageLayer_useEffect count treePositions supplied None = None"
  by (cases supplied)
     (simp_all add: FoliageLayer_useEffect_def FoliageLayer_mount_def Let_def mult.commute)

theorem C6_witness:
  "FoliageLayer_useEffect 2 (replicate 6 (Num 1)) (Some (replicate 3 (Num 5)))
       (Some (FoliageLayer_mount (replicate 6 (Num 1))))
     = Some (FoliageLayer_mount (replicate 6 (Num 1)))
   \<and> FoliageLayer_useEffect 2 (replicate 6 (Num 1)) (Some (replicate 6 (Num 5)))
       (Some (FoliageLayer_mount (replicate 6 (Num 1))))
     = Some \<lparr>aImagePos = replicate 6 (Num 5)\<rparr>"
  using C6_image_buffer_needs_exact_length
      [of "replicate 3 (Num 5)" 2 "replicate 6 (Num 1)" "FoliageLayer_mount (replicate 6 (Num 1))"]
    C6_image_buffer_needs_exact_length
      [of "replicate 6 (Num 5)" 2 "replicate 6 (Num 1)" "FoliageLayer_mount (replicate 6 (Num 1))"]
  by (simp add: FoliageLayer_mount_def)


section \<open>Candidate pixels\<close>

text \<open>
  How a rounding is evaluated: scale \<open>x\<close> by the power of two that brings it between
  \<open>2 ^ 52\<close> and \<open>2 ^ 53\<close>, round to the nearest integer, scale back.
\<close>

lemma fl_value:
  assumes "2 ^ 52 \<le> \<bar>x\<bar> * 2 ^ n" and "\<bar>x\<bar> * 2 ^ n < 2 ^ 53" and "round_even (x * 2 ^ n) = m"
  shows "fl x = of_int m / 2 ^ n"
proof -
  have pos: "0 < \<bar>x\<bar>"
  proof (rule ccontr)
    assume "\<not> 0 < \<bar>x\<bar>"
    then have "\<bar>x\<bar> * 2 ^ n = 0" by simp
    then show False using assms(1) by simp
  qed
  then have x0: "x \<noteq> 0" by auto
  have p: "(2::real) powr of_int (52 - int n) = 2 ^ 52 / 2 ^ n"
    by (simp add: powr_diff powr_realpow)
  have q: "(2::real) powr (of_int (52 - int n) + 1) = 2 ^ 53 / 2 ^ n"
    by (simp add: powr_diff powr_add powr_realpow)
  have lo: "2 powr of_int (52 - int n) \<le> \<bar>x\<bar>"
    unfolding p using assms(1) by (simp add: field_simps)
  have hi: "\<bar>x\<bar> < 2 powr (of_int (52 - int n) + 1)"
    unfolding q using assms(2) by (simp add: field_simps)
  have "of_int (52 - int n) \<le> log 2 \<bar>x\<bar>"
    using lo pos by (simp add: le_log_iff)
  moreover have "log 2 \<bar>x\<bar> < of_int (52 - int n) + 1"
    using hi pos by (simp add: log_less_iff)
  ultimately have fl_log: "\<lfloor>log 2 \<bar>x\<bar>\<rfloor> = 52 - int n"
    by (rule floor_unique)
  have e: "(2::real) powr - real n = 1 / 2 ^ n"
    by (simp add: powr_minus powr_realpow inverse_eq_divide)
  have "fl x = of_int (round_even (x / 2 powr - real n)) * 2 powr - real n"
    using x0 by (simp add: fl_def Let_def fl_log)
  also have "\<dots> = of_int (round_even (x * 2 ^ n)) / 2 ^ n"
    unfolding e by simp
  finally show ?thesis using assms(3) by simp
qed

lemma dsub_self: "dsub a a = 0"
  by (simp add: dsub_def fl_def)

text \<open>
  The three weights, and the luminances of the colours used below. Gray 200 and white
  come out exact; \<open>(60, 252, 124)\<close>, whose exact luminance is 180, comes out just
  below 180, and \<open>(251, 241, 206)\<close>, whose exact luminance is 240, just below 240.
\<close>

lemma w_red_value: "w_red = 5386305154335113 / 18014398509481984"
  using fl_value [of "299 / 1000" 54 5386305154335113]
  by (simp add: w_red_def round_even_def)

lemma w_green_value: "w_green = 2643612981266481 / 4503599627370496"
  using fl_value [of "587 / 1000" 53 5287225962532962]
  by (simp add: w_green_def round_even_def)

lemma w_blue_value: "w_blue = 8214565720323785 / 72057594037927936"
  using fl_value [of "57 / 500" 56 8214565720323785]
  by (simp add: w_blue_def round_even_def)

lemma luma_200_200_200: "luma 200 200 200 = 200"
proof -
  have p1: "dmul w_red 200 = 4208050901824307 / 70368744177664"
    using fl_value [of "134657628858377825 / 2251799813685248" 47 8416101803648614]
    by (simp add: dmul_def w_red_value round_even_def)
  have p2: "dmul w_green 200 = 8261290566457753 / 70368744177664"
    using fl_value [of "66090324531662025 / 562949953421312" 46 8261290566457753]
    by (simp add: dmul_def w_green_value round_even_def)
  have p3: "dmul w_blue 200 = 6417629469002957 / 281474976710656"
    using fl_value [of "205364143008094625 / 9007199254740992" 48 6417629469002957]
    by (simp add: dmul_def w_blue_value round_even_def)
  have s1: "dadd (dmul w_red 200) (dmul w_green 200) = 3117335367070515 / 17592186044416"
    unfolding p1 p2 using fl_value [of "3117335367070515 / 17592186044416" 45 6234670734141030]
    by (simp add: dadd_def round_even_def)
  have s2: "dadd (dadd (dmul w_red 200) (dmul w_green 200)) (dmul w_blue 200) = 200"
    unfolding s1 p3 using fl_value [of "56294995342131197 / 281474976710656" 45 7036874417766400]
    by (simp add: dadd_def round_even_def)
  show ?thesis using s2 by (simp add: luma_def)
qed

lemma luma_255_255_255: "luma 255 255 255 = 255"
proof -
  have p1: "dmul w_red 255 = 5365264899825991 / 70368744177664"
    using fl_value [of "1373507814355453815 / 18014398509481984" 46 5365264899825991]
    by (simp add: dmul_def w_red_value round_even_def)
  have p2: "dmul w_green 255 = 2633286368058409 / 17592186044416"
    using fl_value [of "674121310222952655 / 4503599627370496" 45 5266572736116818]
    by (simp add: dmul_def w_green_value round_even_def)
  have p3: "dmul w_blue 255 = 4091238786489385 / 140737488355328"
    using fl_value [of "2094714258682565175 / 72057594037927936" 48 8182477572978770]
    by (simp add: dmul_def w_blue_value round_even_def)
  have s1: "dadd (dmul w_red 255) (dmul w_green 255) = 3974602593014907 / 17592186044416"
    unfolding p1 p2 using fl_value [of "15898410372059627 / 70368744177664" 45 7949205186029814]
    by (simp add: dadd_def round_even_def)
  have s2: "dadd (dadd (dmul w_red 255) (dmul w_green 255)) (dmul w_blue 255) = 255"
    unfolding s1 p3 using fl_value [of "35888059530608641 / 140737488355328" 45 8972014882652160]
    by (simp add: dadd_def round_even_def)
  show ?thesis using s2 by (simp add: luma_def)
qed

lemma luma_60_252_124: "luma 60 252 124 = 6333186975989759 / 35184372088832"
proof -
  have p1: "dmul w_red 60 = 315603817636823 / 17592186044416"
    using fl_value [of "80794577315026695 / 4503599627370496" 48 5049661082189168]
    by (simp add: dmul_def w_red_value round_even_def)
  have p2: "dmul w_green 252 = 162644158027137 / 1099511627776"
    using fl_value [of "166547617819788303 / 1125899906842624" 45 5204613056868384]
    by (simp add: dmul_def w_green_value round_even_def)
  have p3: "dmul w_blue 124 = 7957860541563667 / 562949953421312"
    using fl_value [of "254651537330037335 / 18014398509481984" 49 7957860541563667]
    by (simp add: dmul_def w_blue_value round_even_def)
  have s1: "dadd (dmul w_red 60) (dmul w_green 252) = 2917910346071015 / 17592186044416"
    unfolding p1 p2 using fl_value [of "2917910346071015 / 17592186044416" 45 5835820692142030]
    by (simp add: dadd_def round_even_def)
  have s2: "dadd (dadd (dmul w_red 60) (dmul w_green 252)) (dmul w_blue 124) = 6333186975989759 / 35184372088832"
    unfolding s1 p3 using fl_value [of "101330991615836147 / 562949953421312" 45 6333186975989759]
    by (simp add: dadd_def round_even_def)
  show ?thesis using s2 by (simp add: luma_def)
qed

lemma luma_251_241_206: "luma 251 241 206 = 8444249301319679 / 35184372088832"
proof -
  have p1: "dmul w_red 251 = 5281103881789505 / 70368744177664"
    using fl_value [of "1351962593738113363 / 18014398509481984" 46 5281103881789505]
    by (simp add: dmul_def w_red_value round_even_def)
  have p2: "dmul w_green 241 = 1244356891572699 / 8796093022208"
    using fl_value [of "637110728485221921 / 4503599627370496" 45 4977427566290796]
    by (simp add: dmul_def w_green_value round_even_def)
  have p3: "dmul w_blue 206 = 3305079176536523 / 140737488355328"
    using fl_value [of "846100269193349855 / 36028797018963968" 48 6610158353073046]
    by (simp add: dmul_def w_blue_value round_even_def)
  have s1: "dadd (dmul w_red 251) (dmul w_green 241) = 1904494876796387 / 8796093022208"
    unfolding p1 p2 using fl_value [of "15235959014371097 / 70368744177664" 45 7617979507185548]
    by (simp add: dadd_def round_even_def)
  have s2: "dadd (dadd (dmul w_red 251) (dmul w_green 241)) (dmul w_blue 206) = 8444249301319679 / 35184372088832"
    unfolding s1 p3 using fl_value [of "33776997205278715 / 140737488355328" 45 8444249301319679]
    by (simp add: dadd_def round_even_def)
  show ?thesis using s2 by (simp add: luma_def)
qed

lemma luma_182_182_182: "luma 182 182 182 = 6403555720167423 / 35184372088832"
proof -
  have p1: "dmul w_red 182 = 7658652641320239 / 140737488355328"
    using fl_value [of "490153769044495283 / 9007199254740992" 47 7658652641320239]
    by (simp add: dmul_def w_red_value round_even_def)
  have p2: "dmul w_green 182 = 7517774415476555 / 70368744177664"
    using fl_value [of "240568781295249771 / 2251799813685248" 46 7517774415476555]
    by (simp add: dmul_def w_green_value round_even_def)
  have p3: "dmul w_blue 182 = 5840042816792691 / 281474976710656"
    using fl_value [of "747525480549464435 / 36028797018963968" 48 5840042816792691]
    by (simp add: dmul_def w_blue_value round_even_def)
  have s1: "dadd (dmul w_red 182) (dmul w_green 182) = 5673550368068337 / 35184372088832"
    unfolding p1 p2 using fl_value [of "22694201472273349 / 140737488355328" 45 5673550368068337]
    by (simp add: dadd_def round_even_def)
  have s2: "dadd (dadd (dmul w_red 182) (dmul w_green 182)) (dmul w_blue 182) = 6403555720167423 / 35184372088832"
    unfolding s1 p3 using fl_value [of "51228445761339387 / 281474976710656" 45 6403555720167423]
    by (simp add: dadd_def round_even_def)
  show ?thesis using s2 by (simp add: luma_def)
qed

lemma luma_197_197_197: "luma 197 197 197 = 197"
proof -
  have p1: "dmul w_red 197 = 8289860276593885 / 140737488355328"
    using fl_value [of "1061102115404017261 / 18014398509481984" 47 8289860276593885]
    by (simp add: dmul_def w_red_value round_even_def)
  have p2: "dmul w_green 197 = 8137371207960887 / 70368744177664"
    using fl_value [of "520791757309496757 / 4503599627370496" 46 8137371207960887]
    by (simp add: dmul_def w_green_value round_even_def)
  have p3: "dmul w_blue 197 = 6321365026967913 / 281474976710656"
    using fl_value [of "1618269446903785645 / 72057594037927936" 48 6321365026967913]
    by (simp add: dmul_def w_blue_value round_even_def)
  have s1: "dadd (dmul w_red 197) (dmul w_green 197) = 6141150673128915 / 35184372088832"
    unfolding p1 p2 using fl_value [of "24564602692515659 / 140737488355328" 45 6141150673128915]
    by (simp add: dadd_def round_even_def)
  have s2: "dadd (dadd (dmul w_red 197) (dmul w_green 197)) (dmul w_blue 197) = 197"
    unfolding s1 p3 using fl_value [of "55450570411999233 / 281474976710656" 45 6931321301499904]
    by (simp add: dadd_def round_even_def)
  show ?thesis using s2 by (simp add: luma_def)
qed

lemma dsub_200_255: "dsub (200) (255) = - 55"
  using fl_value [of "- 55" 47 "- 7740561859543040"]
  by (simp add: dsub_def round_even_def)

lemma dsub_border_240: "dsub (8444249301319679 / 35184372088832) (255) = - (527765581332481 / 35184372088832)"
  using fl_value [of "- (527765581332481 / 35184372088832)" 49 "- 8444249301319696"]
  by (simp add: dsub_def round_even_def)

lemma dsub_182_197: "dsub (6403555720167423 / 35184372088832) (197) = - (527765581332481 / 35184372088832)"
  using fl_value [of "- (527765581332481 / 35184372088832)" 49 "- 8444249301319696"]
  by (simp add: dsub_def round_even_def)

lemma getLum_inside:
  "0 \<le> x \<Longrightarrow> x < width \<Longrightarrow> 0 \<le> y \<Longrightarrow> y < height \<Longrightarrow>
   getLum width height data x y = luminance width data x y"
  by (simp add: getLum_def luminance_def luma_def w_red_def w_green_def w_blue_def Let_def)

lemma getLum_padded:
  "0 \<le> x \<Longrightarrow> 0 \<le> y \<Longrightarrow> getLum width height data x y = padded_luminance width height data x y"
  by (simp add: getLum_def luminance_def luma_def w_red_def w_green_def w_blue_def
      padded_luminance_def Let_def)

lemma getAlpha_inside:
  "0 \<le> x \<Longrightarrow> x < width \<Longrightarrow> 0 \<le> y \<Longrightarrow> y < height \<Longrightarrow>
   getAlpha width height data x y = alpha_of width data x y"
  by (simp add: getAlpha_def alpha_of_def)

lemma isCandidate_iff:
  assumes "0 \<le> x" "x < width" "0 \<le> y" "y < height"
  shows "isCandidate width height data x y \<longleftrightarrow>
     50 \<le> alpha_of width data x y
     \<and> (luminance width data x y < 180
        \<or> 15 < \<bar>dsub (luminance width data x y) (padded_luminance width height data (x + 1) y)\<bar>
        \<or> 15 < \<bar>dsub (luminance width data x y) (padded_luminance width height data x (y + 1))\<bar>)"
proof -
  have "getLum width height data (x + 1) y = padded_luminance width height data (x + 1) y"
    using assms by (intro getLum_padded) simp_all
  moreover have "getLum width height data x (y + 1) = padded_luminance width height data x (y + 1)"
    using assms by (intro getLum_padded) simp_all
  ultimately show ?thesis
    using assms by (auto simp add: isCandidate_def Let_def getLum_inside getAlpha_inside)
qed

lemma concat_map_nonempty: "concat (map f xs) \<noteq> [] \<longleftrightarrow> (\<exists>x \<in> set xs. f x \<noteq> [])"
  by (induction xs) auto

lemma scan_row_nonempty_iff:
  "scan_row width height data y \<noteq> [] \<longleftrightarrow>
     (\<exists>x. 0 \<le> x \<and> x < width \<and> isCandidate width height data x y)"
proof -
  have "scan_row width height data y \<noteq> [] \<longleftrightarrow>
      (\<exists>x \<in> set [0 .. width - 1].
         (if isCandidate width height data x y then [x, y] else []) \<noteq> [])"
    unfolding scan_row_def by (rule concat_map_nonempty)
  also have "\<dots> \<longleftrightarrow> (\<exists>x \<in> {0 .. width - 1}. isCandidate width height data x y)"
    by (auto split: if_splits)
  also have "\<dots> \<longleftrightarrow> (\<exists>x. 0 \<le> x \<and> x < width \<and> isCandidate width height data x y)"
    by (metis atLeastAtMost_iff zle_diff1_eq)
  finally show ?thesis .
qed

lemma scan_nonempty_iff:
  "scan width height data \<noteq> [] \<longleftrightarrow>
     (\<exists>x y. 0 \<le> x \<and> x < width \<and> 0 \<le> y \<and> y < height \<and> isCandidate width height data x y)"
proof -
  have "scan width height data \<noteq> [] \<longleftrightarrow>
      (\<exists>y \<in> set [0 .. height - 1]. scan_row width height data y \<noteq> [])"
    unfolding scan_def by (rule concat_map_nonempty)
  also have "\<dots> \<longleftrightarrow> (\<exists>y \<in> {0 .. height - 1}. scan_row width height data y \<noteq> [])"
    by simp
  also have "\<dots> \<longleftrightarrow> (\<exists>y. 0 \<le> y \<and> y < height \<and> scan_row width height data y \<noteq> [])"
    by (metis atLeastAtMost_iff zle_diff1_eq)
  also have "\<dots> \<longleftrightarrow> (\<exists>x y. 0 \<le> x \<and> x < width \<and> 0 \<le> y \<and> y < height
      \<and> isCandidate width height data x y)"
    unfolding scan_row_nonempty_iff by blast
  finally show ?thesis .
qed

text \<open>
  Colours on a threshold, decided by the rounding. In a uniform opaque image of colour
  \<open>(60, 252, 124)\<close> an inner pixel is a candidate, its luminance being just below 180,
  so the candidate array is not empty. In one of colour \<open>(251, 241, 206)\<close> a pixel of
  the right column is a candidate, the difference to 255 being just above 15. A gray
  182 pixel left of gray 197 is a candidate, that difference being just above 15 too.
\<close>

lemma threshold_colour_is_dark:
  "isCandidate 400 300 (\<lambda>i. [60, 252, 124, 255] ! (i mod 4)) 10 10
   \<and> scan 400 300 (\<lambda>i. [60, 252, 124, 255] ! (i mod 4)) \<noteq> []"
proof -
  have c: "isCandidate 400 300 (\<lambda>i. [60, 252, 124, 255] ! (i mod 4)) 10 10"
    using isCandidate_iff [of 10 400 10 300 "\<lambda>i. [60, 252, 124, 255] ! (i mod 4)"]
    by (simp add: luminance_def alpha_of_def luma_60_252_124)
  then have "\<exists>x y. 0 \<le> x \<and> x < 400 \<and> 0 \<le> y \<and> y < 300
      \<and> isCandidate 400 300 (\<lambda>i. [60, 252, 124, 255] ! (i mod 4)) x y"
    by (intro exI [of _ 10]) simp
  then have "scan 400 300 (\<lambda>i. [60, 252, 124, 255] ! (i mod 4)) \<noteq> []"
    by (simp only: scan_nonempty_iff)
  then show ?thesis using c by simp
qed

lemma threshold_colour_on_the_border:
  "isCandidate 400 300 (\<lambda>i. [251, 241, 206, 255] ! (i mod 4)) 399 10"
  using isCandidate_iff [of 399 400 10 300 "\<lambda>i. [251, 241, 206, 255] ! (i mod 4)"]
  by (simp add: luminance_def alpha_of_def padded_luminance_def luma_251_241_206
      dsub_border_240)

lemma threshold_edge:
  "isCandidate 400 300
     (\<lambda>i. if i div 4 = 4010 then [182, 182, 182, 255] ! (i mod 4)
          else [197, 197, 197, 255] ! (i mod 4)) 10 10"
  using isCandidate_iff [of 10 400 10 300
      "\<lambda>i. if i div 4 = 4010 then [182, 182, 182, 255] ! (i mod 4)
           else [197, 197, 197, 255] ! (i mod 4)"]
  by (simp add: luminance_def alpha_of_def padded_luminance_def luma_182_182_182
      luma_197_197_197 dsub_182_197)

text \<open>
  The claim C7 as stated fails on the right column and the bottom row: on a 400 by 300
  canvas that is uniformly light gray and opaque, the pixel at (399, 5) is not dark,
  has no right neighbour and does not differ from its bottom neighbour, yet the code
  makes it a candidate, because it compares with 255 to the right of the image.
\<close>

theorem C7_counterexample:
  "isCandidate 400 300 gray_opaque 399 5 \<and> \<not> spec_candidate 400 300 gray_opaque 399 5"
proof -
  have l: "luminance 400 gray_opaque 399 5 = 200" "luminance 400 gray_opaque 399 6 = 200"
    by (simp_all add: luminance_def gray_opaque_def luma_200_200_200)
  have a: "alpha_of 400 gray_opaque 399 5 = 255"
    by (simp add: alpha_of_def gray_opaque_def)
  have "isCandidate 400 300 gray_opaque 399 5"
    using isCandidate_iff [of 399 400 5 300 gray_opaque]
    by (simp add: l a padded_luminance_def dsub_200_255)
  moreover have "\<not> spec_candidate 400 300 gray_opaque 399 5"
    by (simp add: spec_candidate_def l a dsub_self)
  ultimately show ?thesis by simp
qed

text \<open>
  Claim C7, amended. A pixel of the downsampled image is a candidate iff its alpha is
  at least 50 and its luminance \<open>0.299 R + 0.587 G + 0.114 B\<close> is below 180 or differs
  by more than 15 from the luminance of its right or of its bottom neighbour, where a
  neighbour outside the image counts as luminance 255, and where the luminance and the
  difference are the doubles the code computes. A pixel with alpha below 50 is never
  a candidate. The candidate array is non-empty iff some pixel of the image is
  a candidate; in particular a pixel of alpha at least 50 whose luminance differs by
  more than 15 from that of its right or bottom neighbour inside the image makes it
  non-empty, whatever the luminances are.
\<close>

theorem C7_candidate_pixels:
  "(0 \<le> x \<and> x < width \<and> 0 \<le> y \<and> y < height \<longrightarrow>
      (isCandidate width height data x y \<longleftrightarrow>
         50 \<le> alpha_of width data x y
         \<and> (luminance width data x y < 180
            \<or> 15 < \<bar>dsub (luminance width data x y) (padded_luminance width height data (x + 1) y)\<bar>
            \<or> 15 < \<bar>dsub (luminance width data x y) (padded_luminance width height data x (y + 1))\<bar>))
      \<and> (alpha_of width data x y < 50 \<longrightarrow> \<not> isCandidate width height data x y))
   \<and> (scan width height data \<noteq> [] \<longleftrightarrow>
        (\<exists>u v. 0 \<le> u \<and> u < width \<and> 0 \<le> v \<and> v < height
           \<and> isCandidate width height data u v))
   \<and> (0 \<le> x \<and> x + 1 < width \<and> 0 \<le> y \<and> y < height \<and> 50 \<le> alpha_of width data x y
       \<and> 15 < \<bar>dsub (luminance width data x y) (luminance width data (x + 1) y)\<bar>
       \<longrightarrow> scan width height data \<noteq> [])
   \<and> (0 \<le> x \<and> x < width \<and> 0 \<le> y \<and> y + 1 < height \<and> 50 \<le> alpha_of width data x y
       \<and> 15 < \<bar>dsub (luminance width data x y) (luminance width data x (y + 1))\<bar>
       \<longrightarrow> scan width height data \<noteq> [])"
proof (intro conjI impI)
  assume h: "0 \<le> x \<and> x < width \<and> 0 \<le> y \<and> y < height"
  then show "isCandidate width height data x y \<longleftrightarrow>
         50 \<le> alpha_of width data x y
         \<and> (luminance width data x y < 180
            \<or> 15 < \<bar>dsub (luminance width data x y) (padded_luminance width height data (x + 1) y)\<bar>
            \<or> 15 < \<bar>dsub (luminance width data x y) (padded_luminance width height data x (y + 1))\<bar>)"
    by (simp add: isCandidate_iff)
  assume "alpha_of width data x y < 50"
  then show "\<not> isCandidate width height data x y"
    using h by (simp add: isCandidate_iff)
next
  show "scan width height data \<noteq> [] \<longleftrightarrow>
        (\<exists>u v. 0 \<le> u \<and> u < width \<and> 0 \<le> v \<and> v < height
           \<and> isCandidate width height data u v)"
    by (rule scan_nonempty_iff)
next
  assume h: "0 \<le> x \<and> x + 1 < width \<and> 0 \<le> y \<and> y < height \<and> 50 \<le> alpha_of width data x y
       \<and> 15 < \<bar>dsub (luminance width data x y) (luminance width data (x + 1) y)\<bar>"
  then have "isCandidate width height data x y"
    by (simp add: isCandidate_iff padded_luminance_def)
  then show "scan width height data \<noteq> []"
    using h scan_nonempty_iff [of width height data] by (intro iffD2 [OF scan_nonempty_iff] exI [of _ x] exI [of _ y]) simp
next
  assume h: "0 \<le> x \<and> x < width \<and> 0 \<le> y \<and> y + 1 < height \<and> 50 \<le> alpha_of width data x y
       \<and> 15 < \<bar>dsub (luminance width data x y) (luminance width data x (y + 1))\<bar>"
  then have "isCandidate width height data x y"
    by (simp add: isCandidate_iff padded_luminance_def)
  then show "scan width height data \<noteq> []"
    using h scan_nonempty_iff [of width height data] by (intro iffD2 [OF scan_nonempty_iff] exI [of _ x] exI [of _ y]) simp
qed


theorem C7_witness:
  "scan 400 300 (\<lambda>i. if i < 3 then 200 else 255) \<noteq> []"
  using C7_candidate_pixels [of 0 400 0 300 "\<lambda>i. if i < 3 then 200 else 255"]
  by (simp add: alpha_of_def luminance_def luma_200_200_200 luma_255_255_255 dsub_200_255)


section \<open>imageToPoints\<close>

lemma length_sample_point: "length (sample_point width height candidates random i) = 3"
  by (simp add: sample_point_def Let_def)

lemma length_concat_triples:
  "(\<And>x. length (f x) = 3) \<Longrightarrow> length (concat (map f xs)) = 3 * length xs"
  by (induction xs) simp_all

lemma imageToPoints_cases:
  "imageToPoints b n = Pending
   \<or> imageToPoints b n = Resolved (replicate (n * 3) (Num 0))
   \<or> imageToPoints b n = Resolved (concat (map (sample_point 400
          (canvas_height (case br_image b of Decoded w h \<Rightarrow> w | DecodeError \<Rightarrow> 0)
                         (case br_image b of Decoded w h \<Rightarrow> h | DecodeError \<Rightarrow> 0))
          (scan 400 (canvas_height (case br_image b of Decoded w h \<Rightarrow> w | DecodeError \<Rightarrow> 0)
                         (case br_image b of Decoded w h \<Rightarrow> h | DecodeError \<Rightarrow> 0)) (br_data b))
          (br_random b)) [0 ..< n]))"
  by (cases "br_image b") (simp_all add: imageToPoints_def Let_def)

lemma imageToPoints_length:
  "imageToPoints b n = Resolved out \<Longrightarrow> length out = 3 * n"
  using imageToPoints_cases [of b n]
  by (auto simp add: length_concat_triples length_sample_point)

lemma imageToPoints_Pending_iff:
  "imageToPoints b n = Pending \<longleftrightarrow>
     (\<exists>w h. br_image b = Decoded w h \<and> br_context2d b \<and> canvas_height w h = 0)"
  by (cases "br_image b") (auto simp add: imageToPoints_def Let_def)

lemma gray_opaque_pixel:
  assumes "0 \<le> k"
  shows "gray_opaque (nat (k * 4)) = 200" "gray_opaque (Suc (nat (k * 4))) = 200"
    "gray_opaque (Suc (Suc (nat (k * 4)))) = 200" "gray_opaque (nat (k * 4 + 3)) = 255"
proof -
  obtain n where k: "k = int n" using assms by (metis nat_0_le)
  have a: "nat (k * 4) = 4 * n" and b: "nat (k * 4 + 3) = 4 * n + 3"
    by (simp_all add: k nat_mult_distrib nat_add_distrib)
  show "gray_opaque (nat (k * 4)) = 200" "gray_opaque (Suc (nat (k * 4))) = 200"
    "gray_opaque (Suc (Suc (nat (k * 4)))) = 200" "gray_opaque (nat (k * 4 + 3)) = 255"
    unfolding a b gray_opaque_def by (simp_all add: mod_Suc)
qed

lemma gray_row_candidates:
  assumes "0 \<le> x" "x < 400"
  shows "isCandidate 400 1 gray_opaque x 0"
proof -
  have "luminance 400 gray_opaque x 0 = 200" "alpha_of 400 gray_opaque x 0 = 255"
    using assms by (simp_all add: luminance_def alpha_of_def gray_opaque_pixel luma_200_200_200)
  then show ?thesis
    using assms by (simp add: isCandidate_iff padded_luminance_def dsub_200_255)
qed

lemma scan_gray_row: "scan 400 1 gray_opaque = concat (map (\<lambda>x. [x, 0]) [0 .. 399])"
proof -
  have "scan_row 400 1 gray_opaque 0 = concat (map (\<lambda>x. [x, 0]) [0 .. 399])"
    unfolding scan_row_def
    by (intro arg_cong [where f = concat] map_cong) (simp_all add: gray_row_candidates)
  then show ?thesis by (simp add: scan_def)
qed

lemma length_concat_pairs: "length (concat (map (\<lambda>x. [x, c]) xs)) = 2 * length xs"
  by (induction xs) simp_all

text \<open>
  A run of the whole function: a 400 by 1 image, uniformly light gray, with
  \<open>Math.random\<close> returning 0 every time. All 400 pixels are candidates (the row below
  counts as white), the first is sampled, and the one point asked for is
  \<open>(-8, 2.02, -0.05)\<close>.
\<close>

lemma imageToPoints_gray_example:
  "imageToPoints \<lparr>br_image = Decoded 400 1, br_context2d = True,
                  br_data = gray_opaque, br_random = (\<lambda>k. 0)\<rparr> 1
     = Resolved [Num (- 8), Num (2 + 1 / 50), Num (- (1 / 20))]"
proof -
  have h: "canvas_height 400 1 = 1" by (simp add: canvas_height_def)
  have u: "[0 .. 399] = 0 # [1 .. 399]" by (simp add: upto_rec1)
  have len: "length (scan 400 1 gray_opaque) = 800"
    by (simp add: scan_gray_row length_concat_pairs)
  have hd2: "scan 400 1 gray_opaque ! 0 = 0" "scan 400 1 gray_opaque ! Suc 0 = 0"
    unfolding scan_gray_row u by simp_all
  have sp: "sample_point 400 1 (scan 400 1 gray_opaque) (\<lambda>k. 0) 0
      = [Num (- 8), Num (2 + 1 / 50), Num (- (1 / 20))]"
    by (simp add: sample_point_def Let_def len hd2)
  have ne: "scan 400 1 gray_opaque \<noteq> []" using len by auto
  show ?thesis
    using ne by (simp add: imageToPoints_def Let_def h [simplified] sp)
qed

text \<open>
  Claim C2. A decodable image that is more than 400 times as wide as it is high, such
  as one of 1000 by 1 pixels, gives a canvas of height 0; reading its pixels throws
  inside \<open>onload\<close> and the promise stays pending, for every \<open>targetCount\<close>. The
  promise stays pending in that case only. Whenever it resolves, the buffer has length
  \<open>3 * targetCount\<close>, and it is all zeros when the image fails to decode, when the 2D
  context is unavailable and when no candidate pixel is found.
\<close>

theorem C2_wide_image_leaves_promise_pending:
  "imageToPoints \<lparr>br_image = Decoded 1000 1, br_context2d = True,
                  br_data = data, br_random = random\<rparr> n = Pending
   \<and> (imageToPoints b n = Pending \<longleftrightarrow>
        (\<exists>w h. br_image b = Decoded w h \<and> br_context2d b \<and> canvas_height w h = 0))
   \<and> (\<forall>out. imageToPoints b n = Resolved out \<longrightarrow> length out = 3 * n)
   \<and> (br_image b = DecodeError \<longrightarrow> imageToPoints b n = Resolved (replicate (3 * n) (Num 0)))
   \<and> (br_image b = Decoded w h \<and> \<not> br_context2d b \<longrightarrow>
        imageToPoints b n = Resolved (replicate (3 * n) (Num 0)))
   \<and> (br_image b = Decoded w h \<and> br_context2d b \<and> canvas_height w h \<noteq> 0
        \<and> scan 400 (canvas_height w h) (br_data b) = [] \<longrightarrow>
        imageToPoints b n = Resolved (replicate (3 * n) (Num 0)))"
proof (intro conjI allI impI)
  show "imageToPoints \<lparr>br_image = Decoded 1000 1, br_context2d = True,
                  br_data = data, br_random = random\<rparr> n = Pending"
    by (simp add: imageToPoints_def Let_def canvas_height_def)
  show "imageToPoints b n = Pending \<longleftrightarrow>
        (\<exists>w h. br_image b = Decoded w h \<and> br_context2d b \<and> canvas_height w h = 0)"
    by (rule imageToPoints_Pending_iff)
  show "\<And>out. imageToPoints b n = Resolved out \<Longrightarrow> length out = 3 * n"
    by (rule imageToPoints_length)
  show "br_image b = DecodeError \<Longrightarrow> imageToPoints b n = Resolved (replicate (3 * n) (Num 0))"
    by (simp add: imageToPoints_def mult.commute)
  show "br_image b = Decoded w h \<and> \<not> br_context2d b \<Longrightarrow>
        imageToPoints b n = Resolved (replicate (3 * n) (Num 0))"
    by (simp add: imageToPoints_def Let_def mult.commute)
  show "br_image b = Decoded w h \<and> br_context2d b \<and> canvas_height w h \<noteq> 0
        \<and> scan 400 (canvas_height w h) (br_data b) = [] \<Longrightarrow>
        imageToPoints b n = Resolved (replicate (3 * n) (Num 0))"
    by (simp add: imageToPoints_def Let_def mult.commute)
qed

theorem C2_witness:
  "imageToPoints \<lparr>br_image = DecodeError, br_context2d = True,
                  br_data = (\<lambda>i. 0), br_random = (\<lambda>k. 0)\<rparr> 2
     = Resolved [Num 0, Num 0, Num 0, Num 0, Num 0, Num 0]"
  using C2_wide_image_leaves_promise_pending
    [of "\<lambda>i. 0" "\<lambda>k. 0" 2
        "\<lparr>br_image = DecodeError, br_context2d = True, br_data = (\<lambda>i. 0), br_random = (\<lambda>k. 0)\<rparr>"]
  by (simp add: numeral_eq_Suc)


section \<open>The installed image point set\<close>

lemma hasValidPoints_from_iff:
  "3 dvd length points \<Longrightarrow> 3 dvd i \<Longrightarrow>
   hasValidPoints_from points i \<longleftrightarrow> (\<exists>j. i \<le> j \<and> j < length points \<and> points ! j \<noteq> Num 0)"
proof (induction points i rule: hasValidPoints_from.induct)
  case (1 points i)
  show ?case
  proof (cases "i < length points")
    case False
    then show ?thesis by (subst hasValidPoints_from.simps) auto
  next
    case True
    obtain a where a: "length points = 3 * a" using "1.prems"(1) by (auto elim: dvdE)
    obtain c where c: "i = 3 * c" using "1.prems"(2) by (auto elim: dvdE)
    have in_range: "i + 1 < length points" "i + 2 < length points"
      using True a c by auto
    show ?thesis
    proof (cases "strict_ne_zero points i \<or> strict_ne_zero points (i + 1)
        \<or> strict_ne_zero points (i + 2)")
      case hit: True
      then have "\<exists>j. i \<le> j \<and> j < length points \<and> points ! j \<noteq> Num 0"
        using True in_range unfolding strict_ne_zero_def
        by (metis le_add1 order_refl)
      moreover have "hasValidPoints_from points i"
        using True hit by (subst hasValidPoints_from.simps) simp
      ultimately show ?thesis by simp
    next
      case miss: False
      then have z: "points ! i = Num 0" "points ! (i + 1) = Num 0" "points ! (i + 2) = Num 0"
        using True in_range by (simp_all add: strict_ne_zero_def)
      have step: "hasValidPoints_from points i = hasValidPoints_from points (i + 3)"
        using True miss by (subst hasValidPoints_from.simps) simp
      have "3 dvd (i + 3)" using "1.prems"(2) by simp
      then have ih: "hasValidPoints_from points (i + 3) \<longleftrightarrow>
          (\<exists>j. i + 3 \<le> j \<and> j < length points \<and> points ! j \<noteq> Num 0)"
        using "1.IH" [OF True miss "1.prems"(1)] by simp
      have "(\<exists>j. i + 3 \<le> j \<and> j < length points \<and> points ! j \<noteq> Num 0)
          \<longleftrightarrow> (\<exists>j. i \<le> j \<and> j < length points \<and> points ! j \<noteq> Num 0)"
      proof
        assume "\<exists>j. i + 3 \<le> j \<and> j < length points \<and> points ! j \<noteq> Num 0"
        then show "\<exists>j. i \<le> j \<and> j < length points \<and> points ! j \<noteq> Num 0"
          by (meson add_leD1)
      next
        assume "\<exists>j. i \<le> j \<and> j < length points \<and> points ! j \<noteq> Num 0"
        then obtain j where j: "i \<le> j" "j < length points" "points ! j \<noteq> Num 0" by blast
        have "j \<noteq> i" "j \<noteq> i + 1" "j \<noteq> i + 2" using j(3) z by auto
        then have "i + 3 \<le> j" using j(1) by simp
        then show "\<exists>j. i + 3 \<le> j \<and> j < length points \<and> points ! j \<noteq> Num 0"
          using j by blast
      qed
      then show ?thesis using step ih by simp
    qed
  qed
qed

lemma hasValidPoints_iff:
  "3 dvd length points \<Longrightarrow> hasValidPoints points \<longleftrightarrow> (\<exists>x \<in> set points. x \<noteq> Num 0)"
proof -
  assume "3 dvd length points"
  then have "hasValidPoints points \<longleftrightarrow> (\<exists>j. j < length points \<and> points ! j \<noteq> Num 0)"
    by (simp add: hasValidPoints_def hasValidPoints_from_iff)
  also have "\<dots> \<longleftrightarrow> (\<exists>x \<in> set points. x \<noteq> Num 0)"
    by (metis in_set_conv_nth)
  finally show ?thesis .
qed

lemma App_resolve_installed_ok:
  "3 dvd length (resolved_points e) \<Longrightarrow> installed_ok st \<Longrightarrow> installed_ok (App_resolve e st)"
  by (cases e)
     (auto simp add: default_image_resolved_def upload_resolved_def installed_ok_def
        hasValidPoints_iff)

lemma App_run_installed_ok:
  "\<forall>e \<in> set es. 3 dvd length (resolved_points e) \<Longrightarrow> installed_ok st \<Longrightarrow>
   installed_ok (App_run es st)"
  by (induction es arbitrary: st) (simp_all add: App_resolve_installed_ok)

lemma all_zero_not_installed:
  "3 dvd length (resolved_points e) \<Longrightarrow> \<forall>x \<in> set (resolved_points e). x = Num 0 \<Longrightarrow>
   App_resolve e st = st"
  by (cases e) (auto simp add: default_image_resolved_def upload_resolved_def hasValidPoints_iff)

text \<open>
  Claim C10. Let every extraction result be a buffer of length \<open>3 * count\<close>, as
  \<open>imageToPoints\<close> resolves with for \<open>targetCount = count\<close>. Then after any sequence
  of results, from the initial state and from any state that satisfies it, the
  installed value is absent or has an entry that is not 0; a result that is all zeros
  leaves the state as it is, so it never replaces an installed point set; and a result
  that changes the installed value is installed itself and has an entry that is not 0.
\<close>

theorem C10_installed_points_are_never_all_zero:
  assumes "\<forall>e \<in> set es. length (resolved_points e) = 3 * count"
  shows "installed_ok (App_run es App_init)
     \<and> (installed_ok st \<longrightarrow> installed_ok (App_run es st))
     \<and> (\<forall>e \<in> set es. (\<forall>x \<in> set (resolved_points e). x = Num 0) \<longrightarrow>
           (\<forall>s. App_resolve e s = s))
     \<and> (\<forall>e \<in> set es. \<forall>s. imagePoints (App_resolve e s) \<noteq> imagePoints s \<longrightarrow>
           imagePoints (App_resolve e s) = Some (resolved_points e)
           \<and> (\<exists>x \<in> set (resolved_points e). x \<noteq> Num 0))"
proof -
  have d: "\<forall>e \<in> set es. 3 dvd length (resolved_points e)" using assms by simp
  have init: "installed_ok App_init" by (simp add: installed_ok_def App_init_def)
  have "installed_ok (App_run es App_init)" using d init by (rule App_run_installed_ok)
  moreover have "installed_ok st \<longrightarrow> installed_ok (App_run es st)"
    using d by (simp add: App_run_installed_ok)
  moreover have "\<forall>e \<in> set es. (\<forall>x \<in> set (resolved_points e). x = Num 0) \<longrightarrow>
           (\<forall>s. App_resolve e s = s)"
    using d all_zero_not_installed by blast
  moreover have "\<forall>e \<in> set es. \<forall>s. imagePoints (App_resolve e s) \<noteq> imagePoints s \<longrightarrow>
           imagePoints (App_resolve e s) = Some (resolved_points e)
           \<and> (\<exists>x \<in> set (resolved_points e). x \<noteq> Num 0)"
  proof (intro ballI allI impI)
    fix e s
    assume e: "e \<in> set es" and ch: "imagePoints (App_resolve e s) \<noteq> imagePoints s"
    have e3: "3 dvd length (resolved_points e)" using d e by blast
    show "imagePoints (App_resolve e s) = Some (resolved_points e)
           \<and> (\<exists>x \<in> set (resolved_points e). x \<noteq> Num 0)"
      using ch hasValidPoints_iff [OF e3]
      by (cases e) (auto simp add: default_image_resolved_def upload_resolved_def split: if_splits)
  qed
  ultimately show ?thesis by blast
qed


theorem C10_witness:
  "installed_ok (App_run [Upload [Num 0, Num 0, Num 0], DefaultImage [Num 1, Num 2, Num 3]]
                   App_init)
   \<and> App_resolve (Upload [Num 0, Num 0, Num 0])
        \<lparr>imagePoints = Some [Num 1, Num 2, Num 3], interactionMode = TREE\<rparr>
      = \<lparr>imagePoints = Some [Num 1, Num 2, Num 3], interactionMode = TREE\<rparr>"
proof -
  let ?es = "[Upload [Num 0, Num 0, Num 0], DefaultImage [Num 1, Num 2, Num 3]]"
  have len: "\<forall>e \<in> set ?es. length (resolved_points e) = 3 * 1" by simp
  note t = C10_installed_points_are_never_all_zero [OF len]
  have a: "installed_ok (App_run ?es App_init)" using t by (rule conjunct1)
  have "\<forall>e \<in> set ?es. (\<forall>x \<in> set (resolved_points e). x = Num 0) \<longrightarrow>
           (\<forall>s. App_resolve e s = s)"
    by (rule t [THEN conjunct2, THEN conjunct2, THEN conjunct1])
  then have b: "\<forall>s. App_resolve (Upload [Num 0, Num 0, Num 0]) s = s" by simp
  show ?thesis using a b by blast
qed

end
